theory Spec2Isabelle
  imports Complex_Main "HOL-Library.AList"
begin

section \<open>JavaScript values\<close>

text \<open>
  The client is JavaScript. A number is an IEEE double: \<open>NaN\<close>, an infinity, or a finite
  double, held as the rational it denotes (the two zeros are one). Objects are association
  lists read by key; arrays are lists.
\<close>

datatype jsnum = NaN | PosInf | NegInf | Num rat

datatype jsval =
    JUndefined
  | JNull
  | JBool bool
  | JNumber jsnum
  | JString string
  | JArray "jsval list"
  | JObject "(string \<times> jsval) list"
  | JNative string  \<comment> \<open>a member of \<open>Object.prototype\<close>, by its name\<close>

type_synonym jsobj = "(string \<times> jsval) list"

text \<open>Property read \<open>o.k\<close> on an object: \<open>undefined\<close> when the key is absent.\<close>

definition get_prop :: "jsobj \<Rightarrow> string \<Rightarrow> jsval" where
  "get_prop obj k = (case map_of obj k of None \<Rightarrow> JUndefined | Some v \<Rightarrow> v)"

text \<open>
  Property read \<open>v.k\<close> on any value that is neither \<open>null\<close> nor \<open>undefined\<close>, for a key
  that no prototype defines (\<open>liens\<close>, \<open>data\<close>, \<open>detail\<close>): primitives and arrays have no
  such property.
\<close>

fun prop_of :: "jsval \<Rightarrow> string \<Rightarrow> jsval" where
  "prop_of (JObject obj) k = get_prop obj k"
| "prop_of _ k = JUndefined"

text \<open>Truthiness, as \<open>if (v)\<close>, \<open>!v\<close>, \<open>a && b\<close> and \<open>a || b\<close> read it.\<close>

fun truthy :: "jsval \<Rightarrow> bool" where
  "truthy JUndefined = False"
| "truthy JNull = False"
| "truthy (JBool b) = b"
| "truthy (JNumber NaN) = False"
| "truthy (JNumber PosInf) = True"
| "truthy (JNumber NegInf) = True"
| "truthy (JNumber (Num q)) = (q \<noteq> 0)"
| "truthy (JString s) = (s \<noteq> [])"
| "truthy (JArray xs) = True"
| "truthy (JObject obj) = True"
| "truthy (JNative k) = True"

text \<open>\<open>typeof v === 'object'\<close>: objects, arrays and \<open>null\<close>.\<close>

fun typeof_object :: "jsval \<Rightarrow> bool" where
  "typeof_object JNull = True"
| "typeof_object (JArray xs) = True"
| "typeof_object (JObject obj) = True"
| "typeof_object _ = False"

fun isArray :: "jsval \<Rightarrow> bool" where
  "isArray (JArray xs) = True"
| "isArray _ = False"

text \<open>Object spread \<open>{...a, ...b}\<close>: the keys of \<open>b\<close> override those of \<open>a\<close>.\<close>

definition spread :: "jsobj \<Rightarrow> jsobj \<Rightarrow> jsobj" where
  "spread a b = foldl (\<lambda>acc kv. AList.update (fst kv) (snd kv) acc) a b"

text \<open>
  \<open>xs.slice(0, n)\<close>: a \<open>NaN\<close> end is 0, a fractional end is truncated towards zero, a
  negative end counts from the end of the array.
\<close>

definition truncate_rat :: "rat \<Rightarrow> int" where
  "truncate_rat q = (if q < 0 then - \<lfloor>- q\<rfloor> else \<lfloor>q\<rfloor>)"

fun slice0 :: "'a list \<Rightarrow> jsnum \<Rightarrow> 'a list" where
  "slice0 xs NaN = []"
| "slice0 xs PosInf = xs"
| "slice0 xs NegInf = []"
| "slice0 xs (Num q) =
     (let k = truncate_rat q
      in if k < 0 then take (nat (int (length xs) + k)) xs else take (nat k) xs)"

text \<open>Decimal digits of a natural number, as a template literal prints an integer.\<close>

definition digit_char :: "nat \<Rightarrow> char" where
  "digit_char d = ''0123456789'' ! d"

fun string_of_nat :: "nat \<Rightarrow> string" where
  "string_of_nat n =
     (if n < 10 then [digit_char n]
      else string_of_nat (n div 10) @ [digit_char (n mod 10)])"

section \<open>The platform\<close>

text \<open>
  Built-in functions of the JavaScript platform that the client calls. They are parameters
  of the model, so every theorem holds whatever they compute.
\<close>

record platform =
  parseInt :: "jsval \<Rightarrow> jsnum"
  parseFloat :: "string \<Rightarrow> jsnum"
  trim :: "string \<Rightarrow> string"
  Date_time :: "jsval \<Rightarrow> jsnum"  \<comment> \<open>\<open>new Date(v).getTime()\<close>, \<open>NaN\<close> for an invalid date\<close>
  toISOString :: "int \<Rightarrow> string"  \<comment> \<open>\<open>new Date(ms).toISOString()\<close>\<close>
  string_to_number :: "jsval \<Rightarrow> jsnum"  \<comment> \<open>\<open>ToNumber\<close> on strings, arrays and objects\<close>
  plus_string :: "jsval \<Rightarrow> jsnum \<Rightarrow> jsval"  \<comment> \<open>\<open>a + n\<close> when \<open>a\<close> is a string, array or object\<close>
  JSON_stringify :: "jsval \<Rightarrow> string"
  URLSearchParams :: "jsobj \<Rightarrow> string"  \<comment> \<open>\<open>new URLSearchParams(o).toString()\<close>\<close>

section \<open>Errors and the network\<close>

datatype error =
    Error jsval  \<comment> \<open>\<open>throw new Error(m)\<close>; the message is \<open>m\<close> converted to a string\<close>
  | TypeError  \<comment> \<open>a property read on \<open>null\<close> or \<open>undefined\<close>, a call of a non-function\<close>
  | Rejected  \<comment> \<open>\<open>fetch\<close> rejected, or the body of a successful response is not JSON\<close>

record request_init =
  http_method :: "string option"
  body :: "string option"
  headers :: jsobj

datatype response = Response (ok: bool) (http_status: nat) (json: "jsval option")

type_synonym fetch = "string \<Rightarrow> request_init \<Rightarrow> error + response"

section \<open>The API client\<close>

definition API_BASE :: "string option \<Rightarrow> string" where
  "API_BASE VITE_API_URL =
     (case VITE_API_URL of
        None \<Rightarrow> ''/api''
      | Some u \<Rightarrow> if u \<noteq> [] then u @ ''/api'' else ''/api'')"

definition DEFAULT_TENANT :: string where
  "DEFAULT_TENANT = ''demo-user''"

definition USE_MOCK_DATA :: bool where
  "USE_MOCK_DATA = True"

text \<open>
  The state the client's methods read and write: the \<open>tenantId\<close> field of the
  \<open>ApiClient\<close> instance, the array \<open>mockData.liens\<close> of the module, and its object
  \<open>mockData.payments\<close>, which maps a lien id to the array of its payments.
\<close>

record state =
  tenantId :: jsval
  liens :: "jsobj list"
  payments :: "(string \<times> jsval list) list"

definition constructor :: "jsobj list \<Rightarrow> (string \<times> jsval list) list \<Rightarrow> state" where
  "constructor ls ps = \<lparr>tenantId = JString DEFAULT_TENANT, liens = ls, payments = ps\<rparr>"

definition setTenantId :: "jsval \<Rightarrow> state \<Rightarrow> state" where
  "setTenantId t s = s\<lparr>tenantId := t\<rparr>"

text \<open>
  \<open>request(endpoint, options)\<close>. The headers of \<open>options\<close> are spread last, so they
  override the two the client sets.
\<close>

definition request_headers :: "state \<Rightarrow> request_init \<Rightarrow> jsobj" where
  "request_headers s options =
     spread [(''Content-Type'', JString ''application/json''), (''X-Tenant-ID'', tenantId s)]
       (headers options)"

definition request ::
  "string option \<Rightarrow> fetch \<Rightarrow> state \<Rightarrow> string \<Rightarrow> request_init \<Rightarrow> error + jsval" where
  "request env fetch s endpoint options =
     (case fetch (API_BASE env @ endpoint) (options\<lparr>headers := request_headers s options\<rparr>) of
        Inl e \<Rightarrow> Inl e
      | Inr r \<Rightarrow>
          if \<not> ok r then
            (let err = (case json r of
                          None \<Rightarrow> JObject [(''detail'', JString ''Request failed'')]
                        | Some v \<Rightarrow> v)
             in if err = JNull \<or> err = JUndefined then Inl TypeError
                else if truthy (prop_of err ''detail'') then Inl (Error (prop_of err ''detail''))
                else Inl (Error (JString (''HTTP '' @ string_of_nat (http_status r)))))
          else (case json r of None \<Rightarrow> Inl Rejected | Some v \<Rightarrow> Inr v))"

definition no_options :: request_init where
  "no_options = \<lparr>http_method = None, body = None, headers = []\<rparr>"

subsection \<open>Liens\<close>

text \<open>
  The argument \<open>params\<close> of \<open>getLiens\<close>: the status filter, a string where the caller
  gives one, and the limit, \<open>undefined\<close> where the caller gives none.
\<close>

record liens_params =
  status :: "string option"
  limit :: jsval

definition params_object :: "liens_params \<Rightarrow> jsobj" where
  "params_object params =
     (case status params of None \<Rightarrow> [] | Some st \<Rightarrow> [(''status'', JString st)]) @
     (if limit params = JUndefined then [] else [(''limit'', limit params)])"

definition getLiens_mock :: "platform \<Rightarrow> state \<Rightarrow> liens_params \<Rightarrow> jsobj list" where
  "getLiens_mock P s params =
     (let ls = liens s;
          ls = (case status params of
                  None \<Rightarrow> ls
                | Some st \<Rightarrow>
                    if st \<noteq> [] \<and> st \<noteq> ''all''
                    then filter (\<lambda>l. get_prop l ''status'' = JString st) ls
                    else ls);
          ls = (if truthy (limit params) then slice0 ls (parseInt P (limit params)) else ls)
      in ls)"

text \<open>What \<open>getLiens\<close> makes of the body of a successful response.\<close>

definition getLiens_response :: "jsval \<Rightarrow> jsval" where
  "getLiens_response response =
     (if truthy response \<and> typeof_object response then
        (if isArray response then response
         else if isArray (prop_of response ''liens'') then prop_of response ''liens''
         else if prop_of response ''data'' \<noteq> JNull \<and> prop_of response ''data'' \<noteq> JUndefined
                 \<and> isArray (prop_of (prop_of response ''data'') ''liens'')
           then prop_of (prop_of response ''data'') ''liens''
         else JArray [])
      else JArray [])"

definition getLiens_endpoint :: "platform \<Rightarrow> liens_params \<Rightarrow> string" where
  "getLiens_endpoint P params =
     (let queryString = URLSearchParams P (params_object params)
      in ''/liens'' @ (if queryString \<noteq> [] then ''?'' @ queryString else []))"

definition getLiens ::
  "bool \<Rightarrow> platform \<Rightarrow> string option \<Rightarrow> fetch \<Rightarrow> state \<Rightarrow> liens_params \<Rightarrow> error + jsval" where
  "getLiens mock P env fetch s params =
     (if mock then Inr (JArray (map JObject (getLiens_mock P s params)))
      else
        (case request env fetch s (getLiens_endpoint P params) no_options of
           Inl e \<Rightarrow> Inl e
         | Inr response \<Rightarrow> Inr (getLiens_response response)))"


text \<open>Searching an array: \<open>find\<close> is \<^const>\<open>List.find\<close>; \<open>findIndex\<close> gives \<open>None\<close> for -1.\<close>

fun findIndex :: "('a \<Rightarrow> bool) \<Rightarrow> 'a list \<Rightarrow> nat option" where
  "findIndex p [] = None"
| "findIndex p (x # xs) =
     (if p x then Some 0 else map_option Suc (findIndex p xs))"

text \<open>\<open>xs.splice(i, 1)\<close> removes the element at index \<open>i\<close>.\<close>

definition splice1 :: "nat \<Rightarrow> 'a list \<Rightarrow> 'a list" where
  "splice1 i xs = take i xs @ drop (Suc i) xs"

text \<open>\<open>l.id === lienId\<close>, for a lien id that is a string.\<close>

definition has_id :: "string \<Rightarrow> jsobj \<Rightarrow> bool" where
  "has_id lienId l = (get_prop l ''id'' = JString lienId)"

definition lien_not_found :: error where
  "lien_not_found = Error (JString ''Lien not found'')"

definition string_of_int :: "int \<Rightarrow> string" where
  "string_of_int i = (if i < 0 then CHR ''-'' # string_of_nat (nat (- i)) else string_of_nat (nat i))"

definition getLien ::
  "bool \<Rightarrow> string option \<Rightarrow> fetch \<Rightarrow> state \<Rightarrow> string \<Rightarrow> error + jsval" where
  "getLien mock env fetch s lienId =
     (if mock then
        (case find (has_id lienId) (liens s) of
           None \<Rightarrow> Inl lien_not_found
         | Some lien \<Rightarrow> Inr (JObject lien))
      else request env fetch s (''/liens/'' @ lienId) no_options)"

text \<open>
  The operations that write return the result together with the state they leave; a
  rejected call leaves the state as it was. \<open>now\<close> is the reading of the clock,
  \<open>Date.now()\<close>, in milliseconds.
\<close>

definition createLien ::
  "bool \<Rightarrow> platform \<Rightarrow> string option \<Rightarrow> fetch \<Rightarrow> int \<Rightarrow> state \<Rightarrow> jsobj
     \<Rightarrow> error + jsval \<times> state" where
  "createLien mock P env fetch now s data =
     (if mock then
        (let newLien = spread [(''id'', JString (''lien-'' @ string_of_int now))] data
         in Inr (JObject newLien, s\<lparr>liens := liens s @ [newLien]\<rparr>))
      else
        (case request env fetch s ''/liens''
                \<lparr>http_method = Some ''POST'', body = Some (JSON_stringify P (JObject data)),
                 headers = []\<rparr> of
           Inl e \<Rightarrow> Inl e
         | Inr v \<Rightarrow> Inr (v, s)))"

definition updateLien ::
  "bool \<Rightarrow> platform \<Rightarrow> string option \<Rightarrow> fetch \<Rightarrow> state \<Rightarrow> string \<Rightarrow> jsobj
     \<Rightarrow> error + jsval \<times> state" where
  "updateLien mock P env fetch s lienId data =
     (if mock then
        (case findIndex (has_id lienId) (liens s) of
           None \<Rightarrow> Inl lien_not_found
         | Some index \<Rightarrow>
             (let updated = spread (liens s ! index) data
              in Inr (JObject updated, s\<lparr>liens := (liens s)[index := updated]\<rparr>)))
      else
        (case request env fetch s (''/liens/'' @ lienId)
                \<lparr>http_method = Some ''PUT'', body = Some (JSON_stringify P (JObject data)),
                 headers = []\<rparr> of
           Inl e \<Rightarrow> Inl e
         | Inr v \<Rightarrow> Inr (v, s)))"

definition deleteLien ::
  "bool \<Rightarrow> string option \<Rightarrow> fetch \<Rightarrow> state \<Rightarrow> string \<Rightarrow> error + jsval \<times> state" where
  "deleteLien mock env fetch s lienId =
     (if mock then
        (case findIndex (has_id lienId) (liens s) of
           None \<Rightarrow> Inl lien_not_found
         | Some index \<Rightarrow>
             Inr (JObject [(''success'', JBool True)], s\<lparr>liens := splice1 index (liens s)\<rparr>))
      else
        (case request env fetch s (''/liens/'' @ lienId)
                \<lparr>http_method = Some ''DELETE'', body = None, headers = []\<rparr> of
           Inl e \<Rightarrow> Inl e
         | Inr v \<Rightarrow> Inr (v, s)))"

subsection \<open>Interest calculation\<close>

text \<open>
  Rounding to the nearest double, ties to even. A double is \<open>n * 2 ^ q\<close> for whole \<open>n\<close>
  below \<open>2 ^ 53\<close> in magnitude and \<open>q\<close> from -1074 to 971. For a positive rational \<open>x\<close>
  with \<open>2 ^ e \<le> x < 2 ^ (e + 1)\<close> the doubles around \<open>x\<close> are the multiples of \<open>2 ^ q\<close>
  with \<open>q = e - 52\<close>, or -1074 below the normal range; a result of \<open>2 ^ 1024\<close> or more is
  infinite.
\<close>

definition pow2 :: "int \<Rightarrow> rat" where
  "pow2 e = (if 0 \<le> e then 2 ^ nat e else 1 / 2 ^ nat (- e))"

function bit_length :: "int \<Rightarrow> int" where
  "bit_length i = (if i \<le> 0 then 0 else 1 + bit_length (i div 2))"
  by pat_completeness auto
termination
  by (relation "measure nat") auto

declare bit_length.simps [simp del]

text \<open>The exponent \<open>e\<close> with \<open>2 ^ e \<le> x < 2 ^ (e + 1)\<close>, for positive \<open>x\<close>.\<close>

definition ilog2 :: "rat \<Rightarrow> int" where
  "ilog2 x =
     (let e0 = bit_length (fst (quotient_of x)) - bit_length (snd (quotient_of x))
      in if pow2 e0 \<le> x then e0 else e0 - 1)"

definition round_half_even :: "rat \<Rightarrow> int" where
  "round_half_even m =
     (let f = \<lfloor>m\<rfloor>; r = m - of_int f
      in if r < 1 / 2 then f else if 1 / 2 < r then f + 1 else if even f then f else f + 1)"

definition round_positive :: "rat \<Rightarrow> jsnum" where
  "round_positive x =
     (let e = ilog2 x;
          q = max (e - 52) (- 1074);
          n = round_half_even (x / pow2 q)
      in if 1023 < e \<or> (e = 1023 \<and> n = 2 ^ 53) then PosInf else Num (of_int n * pow2 q))"

fun num_neg :: "jsnum \<Rightarrow> jsnum" where
  "num_neg NaN = NaN"
| "num_neg PosInf = NegInf"
| "num_neg NegInf = PosInf"
| "num_neg (Num a) = Num (- a)"

definition round_double :: "rat \<Rightarrow> jsnum" where
  "round_double x =
     (if x = 0 then Num 0
      else if 0 < x then round_positive x
      else num_neg (round_positive (- x)))"

text \<open>
  Arithmetic on numbers, as IEEE 754 has it: the exact result is rounded to the nearest
  double, \<open>NaN\<close> propagates, and every comparison with \<open>NaN\<close> is false.
\<close>

fun num_sign :: "jsnum \<Rightarrow> int" where
  "num_sign NaN = 0"
| "num_sign PosInf = 1"
| "num_sign NegInf = - 1"
| "num_sign (Num a) = (if a = 0 then 0 else if 0 < a then 1 else - 1)"

fun num_add :: "jsnum \<Rightarrow> jsnum \<Rightarrow> jsnum" where
  "num_add (Num a) (Num b) = round_double (a + b)"
| "num_add NaN y = NaN"
| "num_add x NaN = NaN"
| "num_add PosInf NegInf = NaN"
| "num_add NegInf PosInf = NaN"
| "num_add PosInf y = PosInf"
| "num_add NegInf y = NegInf"
| "num_add x PosInf = PosInf"
| "num_add x NegInf = NegInf"

fun num_mul :: "jsnum \<Rightarrow> jsnum \<Rightarrow> jsnum" where
  "num_mul (Num a) (Num b) = round_double (a * b)"
| "num_mul NaN y = NaN"
| "num_mul x NaN = NaN"
| "num_mul x y =
     (if num_sign x * num_sign y = 0 then NaN
      else if 0 < num_sign x * num_sign y then PosInf else NegInf)"

text \<open>Division by a constant of the source, which is positive.\<close>

fun num_div :: "jsnum \<Rightarrow> rat \<Rightarrow> jsnum" where
  "num_div (Num a) c = round_double (a / c)"
| "num_div x c = x"

fun num_floor :: "jsnum \<Rightarrow> jsnum" where
  "num_floor (Num a) = Num (of_int \<lfloor>a\<rfloor>)"
| "num_floor x = x"

fun num_le :: "jsnum \<Rightarrow> jsnum \<Rightarrow> bool" where
  "num_le (Num a) (Num b) = (a \<le> b)"
| "num_le NaN y = False"
| "num_le x NaN = False"
| "num_le NegInf y = True"
| "num_le x PosInf = True"
| "num_le x y = False"

fun num_lt :: "jsnum \<Rightarrow> jsnum \<Rightarrow> bool" where
  "num_lt (Num a) (Num b) = (a < b)"
| "num_lt NaN y = False"
| "num_lt x NaN = False"
| "num_lt PosInf y = False"
| "num_lt x NegInf = False"
| "num_lt x y = True"

text \<open>
  The clock reading and the purchase date are time values, whole numbers of milliseconds.
  Their difference and its quotient by the milliseconds of a day are taken as the exact
  numbers. For time values less than \<open>2 ^ 53\<close> milliseconds apart the doubles give the
  same difference and a quotient with the same floor, which is proved below as
  \<open>days_held_in_doubles\<close>.
\<close>

fun time_sub :: "jsnum \<Rightarrow> jsnum \<Rightarrow> jsnum" where
  "time_sub (Num a) (Num b) = Num (a - b)"
| "time_sub x y = num_add x (num_neg y)"

fun time_div :: "jsnum \<Rightarrow> rat \<Rightarrow> jsnum" where
  "time_div (Num a) c = Num (a / c)"
| "time_div x c = x"

text \<open>\<open>ToNumber\<close>, as \<open>/\<close> and \<open>*\<close> apply it to an operand.\<close>

fun to_number :: "platform \<Rightarrow> jsval \<Rightarrow> jsnum" where
  "to_number P JUndefined = NaN"
| "to_number P JNull = Num 0"
| "to_number P (JBool b) = Num (if b then 1 else 0)"
| "to_number P (JNumber n) = n"
| "to_number P v = string_to_number P v"

text \<open>\<open>a + n\<close> for a number \<open>n\<close>: a string or object on the left concatenates.\<close>

fun js_plus :: "platform \<Rightarrow> jsval \<Rightarrow> jsnum \<Rightarrow> jsval" where
  "js_plus P JUndefined n = JNumber NaN"
| "js_plus P JNull n = JNumber (num_add (Num 0) n)"
| "js_plus P (JBool b) n = JNumber (num_add (Num (if b then 1 else 0)) n)"
| "js_plus P (JNumber a) n = JNumber (num_add a n)"
| "js_plus P v n = plus_string P v n"

definition ms_per_day :: rat where
  "ms_per_day = 1000 * 60 * 60 * 24"

definition calculateInterest ::
  "bool \<Rightarrow> platform \<Rightarrow> string option \<Rightarrow> fetch \<Rightarrow> int \<Rightarrow> state \<Rightarrow> string \<Rightarrow> error + jsval" where
  "calculateInterest mock P env fetch now s lienId =
     (if mock then
        (case find (has_id lienId) (liens s) of
           None \<Rightarrow> Inl lien_not_found
         | Some lien \<Rightarrow>
             (let purchaseDate = Date_time P (get_prop lien ''purchase_date'');
                  today = Num (of_int now);
                  daysHeld = num_floor (time_div (time_sub today purchaseDate) ms_per_day);
                  dailyRate = num_div (num_div (to_number P (get_prop lien ''interest_rate'')) 100) 365;
                  accruedInterest =
                    num_mul (num_mul (to_number P (get_prop lien ''purchase_amount'')) dailyRate)
                      daysHeld
              in Inr (JObject
                   [(''lien_id'', JString lienId),
                    (''days_held'', JNumber daysHeld),
                    (''accrued_interest'', JNumber accruedInterest),
                    (''total_value'', js_plus P (get_prop lien ''purchase_amount'') accruedInterest),
                    (''calculation_date'', JString (toISOString P now))])))
      else request env fetch s (''/liens/'' @ lienId @ ''/interest'') no_options)"

subsection \<open>Payments\<close>

text \<open>
  \<open>mockData.payments[lienId]\<close> reads an object by a key the caller gives: an own key
  first, then the members every object inherits from \<open>Object.prototype\<close>.
\<close>

definition object_prototype_keys :: "string list" where
  "object_prototype_keys =
     [''constructor'', ''__proto__'', ''hasOwnProperty'', ''isPrototypeOf'',
      ''propertyIsEnumerable'', ''toLocaleString'', ''toString'', ''valueOf'',
      ''__defineGetter__'', ''__defineSetter__'', ''__lookupGetter__'', ''__lookupSetter__'']"

definition payments_entry :: "state \<Rightarrow> string \<Rightarrow> jsval" where
  "payments_entry s lienId =
     (case map_of (payments s) lienId of
        Some ps \<Rightarrow> JArray ps
      | None \<Rightarrow> if lienId \<in> set object_prototype_keys then JNative lienId else JUndefined)"

definition getPayments ::
  "bool \<Rightarrow> string option \<Rightarrow> fetch \<Rightarrow> state \<Rightarrow> string \<Rightarrow> error + jsval" where
  "getPayments mock env fetch s lienId =
     (if mock then
        (if truthy (payments_entry s lienId) then Inr (payments_entry s lienId)
         else Inr (JArray []))
      else request env fetch s (''/liens/'' @ lienId @ ''/payments'') no_options)"

definition recordPayment ::
  "bool \<Rightarrow> platform \<Rightarrow> string option \<Rightarrow> fetch \<Rightarrow> state \<Rightarrow> string \<Rightarrow> jsval
     \<Rightarrow> error + jsval \<times> state" where
  "recordPayment mock P env fetch s lienId data =
     (if mock then
        (let s1 = (if \<not> truthy (payments_entry s lienId)
                   then s\<lparr>payments := AList.update lienId [] (payments s)\<rparr> else s)
         in case payments_entry s1 lienId of
              JArray ps \<Rightarrow>
                Inr (data, s1\<lparr>payments := AList.update lienId (ps @ [data]) (payments s1)\<rparr>)
            | _ \<Rightarrow> Inl TypeError)
      else
        (case request env fetch s (''/liens/'' @ lienId @ ''/payments'')
                \<lparr>http_method = Some ''POST'', body = Some (JSON_stringify P data), headers = []\<rparr> of
           Inl e \<Rightarrow> Inl e
         | Inr v \<Rightarrow> Inr (v, s)))"


subsection \<open>The mock data\<close>

definition mock_lien ::
  "string \<Rightarrow> string \<Rightarrow> string \<Rightarrow> string \<Rightarrow> string \<Rightarrow> rat \<Rightarrow> rat \<Rightarrow> string \<Rightarrow> string \<Rightarrow> rat
     \<Rightarrow> string \<Rightarrow> jsobj" where
  "mock_lien i cert addr parcel cnty amount prem pdate rdate year st =
     [(''id'', JString i),
      (''certificate_number'', JString cert),
      (''property_address'', JString addr),
      (''parcel_id'', JString parcel),
      (''county'', JString cnty),
      (''state'', JString ''FL''),
      (''purchase_amount'', JNumber (Num amount)),
      (''interest_rate'', JNumber (Num 18)),
      (''premium'', JNumber (Num prem)),
      (''purchase_date'', JString pdate),
      (''redemption_deadline'', JString rdate),
      (''tax_year'', JNumber (Num year)),
      (''status'', JString st)]"

definition mockData_liens :: "jsobj list" where
  "mockData_liens =
     [mock_lien ''lien-001'' ''MD-2024-0847'' ''123 Main St, Miami, FL 33130''
        ''01-3245-067-0890'' ''Miami-Dade'' 8500 250 ''2024-05-15'' ''2026-05-15'' 2023 ''active'',
      mock_lien ''lien-002'' ''BR-2024-1234'' ''456 Oak Ave, Fort Lauderdale, FL 33301''
        ''50-42-04-12-0010'' ''Broward'' 12000 500 ''2024-03-22'' ''2026-03-22'' 2023 ''active'',
      mock_lien ''lien-003'' ''PB-2024-0567'' ''789 Palm Dr, West Palm Beach, FL 33401''
        ''74-43-44-21-05-000'' ''Palm Beach'' 5200 100 ''2024-06-10'' ''2026-06-10'' 2023 ''active'',
      mock_lien ''lien-004'' ''MD-2024-0923'' ''321 Coral Way, Miami, FL 33145''
        ''01-4156-023-0450'' ''Miami-Dade'' 15000 750 ''2024-04-08'' ''2026-04-08'' 2023 ''active'',
      mock_lien ''lien-005'' ''BR-2023-4521'' ''567 Sunrise Blvd, Plantation, FL 33317''
        ''50-41-17-01-0230'' ''Broward'' 7800 200 ''2023-11-20'' ''2025-11-20'' 2022 ''redeemed'',
      mock_lien ''lien-006'' ''PB-2024-0789'' ''890 Ocean Blvd, Boca Raton, FL 33432''
        ''06-43-47-27-01-000'' ''Palm Beach'' 9500 300 ''2024-02-14'' ''2026-02-14'' 2023 ''active'',
      mock_lien ''lien-007'' ''MD-2024-1156'' ''234 Biscayne Dr, Miami Beach, FL 33139''
        ''02-3241-008-0120'' ''Miami-Dade'' 4200 50 ''2024-07-03'' ''2026-07-03'' 2023 ''active'',
      mock_lien ''lien-008'' ''BR-2024-2345'' ''678 Flamingo Rd, Pembroke Pines, FL 33028''
        ''51-40-04-02-0560'' ''Broward'' 6300 150 ''2024-01-25'' ''2026-01-25'' 2023 ''active'',
      mock_lien ''lien-009'' ''PB-2023-3456'' ''901 Royal Palm Way, Palm Beach, FL 33480''
        ''50-43-43-02-00-000'' ''Palm Beach'' 3500 75 ''2023-09-18'' ''2025-09-18'' 2022 ''redeemed'',
      mock_lien ''lien-010'' ''MD-2024-0234'' ''445 Collins Ave, Miami Beach, FL 33140''
        ''02-3242-015-0780'' ''Miami-Dade'' 2800 25 ''2024-08-12'' ''2026-08-12'' 2023 ''active'',
      mock_lien ''lien-011'' ''BR-2024-5678'' ''112 Las Olas Blvd, Fort Lauderdale, FL 33301''
        ''50-42-06-08-0340'' ''Broward'' 11200 450 ''2024-04-30'' ''2026-04-30'' 2023 ''active'',
      mock_lien ''lien-012'' ''PB-2024-6789'' ''333 Clematis St, West Palm Beach, FL 33401''
        ''74-43-43-18-14-001'' ''Palm Beach'' 2500 50 ''2024-06-28'' ''2026-06-28'' 2023 ''active'']"

definition mock_payment :: "string \<Rightarrow> rat \<Rightarrow> jsval" where
  "mock_payment d a =
     JObject [(''date'', JString d), (''amount'', JNumber (Num a)), (''type'', JString ''Redemption'')]"

definition mockData_payments :: "(string \<times> jsval list) list" where
  "mockData_payments =
     [(''lien-005'', [mock_payment ''2024-08-15'' 8760]),
      (''lien-009'', [mock_payment ''2024-06-22'' 4025])]"

text \<open>The client as the module exports it: \<open>new ApiClient()\<close> over the mock data.\<close>

definition apiClient :: state where
  "apiClient = constructor mockData_liens mockData_payments"

section \<open>The form that adds a lien\<close>

record formData =
  certificate_number :: string
  purchase_amount :: string
  interest_rate :: string
  sale_date :: string
  redemption_deadline :: string
  county :: string
  property_address :: string
  parcel_id :: string

text \<open>
  \<open>validateForm\<close> builds \<open>newErrors\<close>, an object from field names to messages, and
  returns whether it has no key. The list below is that object, in the order the keys
  are set.
\<close>

definition validateForm_errors :: "platform \<Rightarrow> formData \<Rightarrow> (string \<times> string) list" where
  "validateForm_errors P fd =
     (if trim P (certificate_number fd) = []
      then [(''certificate_number'', ''Certificate number is required'')] else []) @
     (if purchase_amount fd = [] \<or> num_le (parseFloat P (purchase_amount fd)) (Num 0)
      then [(''purchase_amount'', ''Purchase amount must be greater than 0'')] else []) @
     (if interest_rate fd = []
      then [(''interest_rate'', ''Interest rate is required'')]
      else (let rate = parseFloat P (interest_rate fd)
            in if num_lt rate (Num 0) \<or> num_lt (Num 100) rate
               then [(''interest_rate'', ''Interest rate must be between 0 and 100'')] else [])) @
     (if sale_date fd = []
      then [(''sale_date'', ''Sale date is required'')] else []) @
     (if redemption_deadline fd = []
      then [(''redemption_deadline'', ''Redemption deadline is required'')]
      else if sale_date fd \<noteq> [] \<and> redemption_deadline fd \<noteq> [] then
        (if num_le (Date_time P (JString (redemption_deadline fd)))
              (Date_time P (JString (sale_date fd)))
         then [(''redemption_deadline'', ''Redemption deadline must be after sale date'')]
         else [])
      else []) @
     (if trim P (county fd) = []
      then [(''county'', ''County is required'')] else []) @
     (if trim P (property_address fd) = []
      then [(''property_address'', ''Property address is required'')] else []) @
     (if trim P (parcel_id fd) = []
      then [(''parcel_id'', ''Parcel ID is required'')] else [])"

definition validateForm :: "platform \<Rightarrow> formData \<Rightarrow> bool" where
  "validateForm P fd = (length (validateForm_errors P fd) = 0)"

definition lienData :: "platform \<Rightarrow> formData \<Rightarrow> jsobj" where
  "lienData P fd =
     [(''certificate_number'', JString (trim P (certificate_number fd))),
      (''purchase_amount'', JNumber (parseFloat P (purchase_amount fd))),
      (''interest_rate'', JNumber (parseFloat P (interest_rate fd))),
      (''sale_date'', JString (sale_date fd)),
      (''redemption_deadline'', JString (redemption_deadline fd)),
      (''county'', JString (trim P (county fd))),
      (''property_address'', JString (trim P (property_address fd))),
      (''parcel_id'', JString (trim P (parcel_id fd))),
      (''status'', JString ''ACTIVE'')]"

text \<open>
  \<open>handleSubmit\<close>: a form that does not validate is returned with its errors and
  nothing is sent; otherwise the lien is created through the client.
\<close>

datatype submit_result =
    ValidationError "(string \<times> string) list"
  | Submitted "error + jsval \<times> state"

definition handleSubmit ::
  "bool \<Rightarrow> platform \<Rightarrow> string option \<Rightarrow> fetch \<Rightarrow> int \<Rightarrow> state \<Rightarrow> formData \<Rightarrow> submit_result" where
  "handleSubmit mock P env fetch now s fd =
     (if \<not> validateForm P fd then ValidationError (validateForm_errors P fd)
      else Submitted (createLien mock P env fetch now s (lienData P fd)))"


section \<open>A platform for the examples\<close>

text \<open>
  The examples evaluate the client on a platform that implements the built-ins on the
  arguments the examples pass: \<open>Date_time\<close> on date-only ISO strings (which ECMAScript
  reads as midnight UTC), \<open>parseFloat\<close> on plain decimal numerals, \<open>trim\<close> on ASCII
  white space, \<open>toISOString\<close> on clock readings within the years 0 to 9999,
  \<open>parseInt\<close> on a number it truncates, \<open>URLSearchParams\<close> on the empty object.
  On other arguments, and in the three remaining fields, its values are placeholders that
  no example reaches. The general theorems do not use it.
\<close>

definition digit_val :: "char \<Rightarrow> nat option" where
  "digit_val c = findIndex (\<lambda>d. d = c) ''0123456789''"

fun digits_acc :: "nat \<Rightarrow> string \<Rightarrow> nat option" where
  "digits_acc acc [] = Some acc"
| "digits_acc acc (c # cs) =
     (case digit_val c of None \<Rightarrow> None | Some d \<Rightarrow> digits_acc (10 * acc + d) cs)"

definition digits_val :: "string \<Rightarrow> nat option" where
  "digits_val cs = (if cs = [] then None else digits_acc 0 cs)"

definition is_leap :: "int \<Rightarrow> bool" where
  "is_leap y = (y mod 4 = 0 \<and> (y mod 100 \<noteq> 0 \<or> y mod 400 = 0))"

definition days_in_month :: "int \<Rightarrow> int \<Rightarrow> int" where
  "days_in_month y m =
     (if m = 2 then (if is_leap y then 29 else 28)
      else if m = 4 \<or> m = 6 \<or> m = 9 \<or> m = 11 then 30 else 31)"

text \<open>Days from 1970-01-01 to a date of the proleptic Gregorian calendar, and back.\<close>

definition days_from_civil :: "int \<Rightarrow> int \<Rightarrow> int \<Rightarrow> int" where
  "days_from_civil y m d =
     (let y1 = (if m \<le> 2 then y - 1 else y);
          era = y1 div 400;
          yoe = y1 - era * 400;
          doy = (153 * (if m > 2 then m - 3 else m + 9) + 2) div 5 + d - 1;
          doe = yoe * 365 + yoe div 4 - yoe div 100 + doy
      in era * 146097 + doe - 719468)"

definition civil_from_days :: "int \<Rightarrow> int \<times> int \<times> int" where
  "civil_from_days z =
     (let z1 = z + 719468;
          era = z1 div 146097;
          doe = z1 - era * 146097;
          yoe = (doe - doe div 1460 + doe div 36524 - doe div 146096) div 365;
          doy = doe - (365 * yoe + yoe div 4 - yoe div 100);
          mp = (5 * doy + 2) div 153;
          d = doy - (153 * mp + 2) div 5 + 1;
          m = (if mp < 10 then mp + 3 else mp - 9);
          y = yoe + era * 400 + (if m \<le> 2 then 1 else 0)
      in (y, m, d))"

definition ref_Date_time :: "jsval \<Rightarrow> jsnum" where
  "ref_Date_time v =
     (case v of
        JString s \<Rightarrow>
          (if length s = 10 \<and> s ! 4 = CHR ''-'' \<and> s ! 7 = CHR ''-'' then
             (case (digits_val (take 4 s), digits_val (take 2 (drop 5 s)), digits_val (drop 8 s)) of
                (Some y, Some m, Some d) \<Rightarrow>
                  if 1 \<le> m \<and> m \<le> 12 \<and> 1 \<le> d \<and> int d \<le> days_in_month (int y) (int m)
                  then Num (of_int (days_from_civil (int y) (int m) (int d) * 86400000))
                  else NaN
              | _ \<Rightarrow> NaN)
           else NaN)
      | _ \<Rightarrow> NaN)"

definition pad :: "nat \<Rightarrow> int \<Rightarrow> string" where
  "pad w i = (let ds = string_of_nat (nat i) in replicate (w - length ds) CHR ''0'' @ ds)"

definition ref_toISOString :: "int \<Rightarrow> string" where
  "ref_toISOString ms =
     (let day = ms div 86400000;
          r = ms mod 86400000;
          ymd = civil_from_days day
      in pad 4 (fst ymd) @ ''-'' @ pad 2 (fst (snd ymd)) @ ''-'' @ pad 2 (snd (snd ymd)) @ ''T''
         @ pad 2 (r div 3600000) @ '':'' @ pad 2 (r mod 3600000 div 60000) @ '':''
         @ pad 2 (r mod 60000 div 1000) @ ''.'' @ pad 3 (r mod 1000) @ ''Z'')"

definition ref_unsigned :: "string \<Rightarrow> jsnum" where
  "ref_unsigned s =
     (let ip = takeWhile (\<lambda>c. c \<noteq> CHR ''.'') s;
          fp = drop (Suc (length ip)) s
      in case digits_val ip of
           None \<Rightarrow> NaN
         | Some i \<Rightarrow>
             if length ip = length s then round_double (of_nat i)
             else (case digits_val fp of
                     None \<Rightarrow> NaN
                   | Some f \<Rightarrow> round_double (of_nat i + of_nat f / 10 ^ length fp)))"

definition ref_parseFloat :: "string \<Rightarrow> jsnum" where
  "ref_parseFloat s =
     (case s of
        [] \<Rightarrow> NaN
      | c # cs \<Rightarrow> if c = CHR ''-'' then num_neg (ref_unsigned cs) else ref_unsigned s)"

definition is_space :: "char \<Rightarrow> bool" where
  "is_space c = (c \<in> set [CHR '' '', CHR 0x09, CHR 0x0A, CHR 0x0B, CHR 0x0C, CHR 0x0D])"

definition ref_trim :: "string \<Rightarrow> string" where
  "ref_trim s = rev (dropWhile is_space (rev (dropWhile is_space s)))"

definition ref_parseInt :: "jsval \<Rightarrow> jsnum" where
  "ref_parseInt v =
     (case v of
        JNumber (Num q) \<Rightarrow>
          if q = 0 \<or> (1 / 10 ^ 6 \<le> \<bar>q\<bar> \<and> \<bar>q\<bar> < 10 ^ 21) then Num (of_int (truncate_rat q)) else NaN
      | _ \<Rightarrow> NaN)"

definition ref_URLSearchParams :: "jsobj \<Rightarrow> string" where
  "ref_URLSearchParams obj = []"

definition ref_platform :: platform where
  "ref_platform =
     \<lparr>parseInt = ref_parseInt,
      parseFloat = ref_parseFloat,
      trim = ref_trim,
      Date_time = ref_Date_time,
      toISOString = ref_toISOString,
      string_to_number = (\<lambda>v. NaN),
      plus_string = (\<lambda>v n. v),
      JSON_stringify = (\<lambda>v. []),
      URLSearchParams = ref_URLSearchParams\<rparr>"


text \<open>Two networks for the examples: one that is down, one that answers every request
  with the URL and the headers it received.\<close>

definition no_network :: fetch where
  "no_network url init = Inl Rejected"

definition echo_fetch :: fetch where
  "echo_fetch url init =
     Inr (Response True 200
            (Some (JObject [(''url'', JString url), (''headers'', JObject (headers init))])))"

text \<open>A payment as the payment dialog builds it, for the examples.\<close>

definition example_payment :: jsval where
  "example_payment =
     JObject [(''amount'', JNumber (Num 10030)),
              (''payment_date'', JString ''2025-05-15''),
              (''payment_method'', JString ''Check''),
              (''payer_name'', JNull),
              (''reference_number'', JNull),
              (''notes'', JNull)]"

text \<open>A lien is retrievable when \<open>getLien\<close> finds it in the store.\<close>

definition retrievable :: "state \<Rightarrow> string \<Rightarrow> bool" where
  "retrievable s lienId \<longleftrightarrow> find (has_id lienId) (liens s) \<noteq> None"

section \<open>The lien invariants, read on the form\<close>

text \<open>
  The constraints the data model puts on a lien, as the specification words them, each
  under the name of the form field it constrains: the required fields are present, the
  principal is greater than 0, the annual rate lies between 0 and 100, and the redemption
  deadline is after the purchase date (the form's sale date).
\<close>

definition invariant_violations :: "platform \<Rightarrow> formData \<Rightarrow> string list" where
  "invariant_violations P fd =
     (if trim P (certificate_number fd) = [] then [''certificate_number''] else []) @
     (if purchase_amount fd = [] \<or> \<not> num_lt (Num 0) (parseFloat P (purchase_amount fd))
      then [''purchase_amount''] else []) @
     (if interest_rate fd = []
         \<or> \<not> (num_le (Num 0) (parseFloat P (interest_rate fd))
               \<and> num_le (parseFloat P (interest_rate fd)) (Num 100))
      then [''interest_rate''] else []) @
     (if sale_date fd = [] then [''sale_date''] else []) @
     (if redemption_deadline fd = []
         \<or> (sale_date fd \<noteq> []
             \<and> \<not> num_lt (Date_time P (JString (sale_date fd)))
                     (Date_time P (JString (redemption_deadline fd))))
      then [''redemption_deadline''] else []) @
     (if trim P (county fd) = [] then [''county''] else []) @
     (if trim P (property_address fd) = [] then [''property_address''] else []) @
     (if trim P (parcel_id fd) = [] then [''parcel_id''] else [])"

text \<open>
  What the inputs of the form guarantee: a field of type \<open>number\<close> holds the empty string
  or a numeral, a field of type \<open>date\<close> holds the empty string or a date.
\<close>

definition typed_inputs :: "platform \<Rightarrow> formData \<Rightarrow> bool" where
  "typed_inputs P fd \<longleftrightarrow>
     (purchase_amount fd = [] \<or> parseFloat P (purchase_amount fd) \<noteq> NaN) \<and>
     (interest_rate fd = [] \<or> parseFloat P (interest_rate fd) \<noteq> NaN) \<and>
     (sale_date fd = [] \<or> Date_time P (JString (sale_date fd)) \<noteq> NaN) \<and>
     (redemption_deadline fd = [] \<or> Date_time P (JString (redemption_deadline fd)) \<noteq> NaN)"

text \<open>A form with five violations, for the example: no certificate number, a principal
  of 0, a rate of 150, a redemption deadline on the purchase date, a blank parcel id.\<close>

definition example_form :: formData where
  "example_form =
     \<lparr>certificate_number = [],
      purchase_amount = ''0'',
      interest_rate = ''150'',
      sale_date = ''2024-05-15'',
      redemption_deadline = ''2024-05-15'',
      county = ''Broward'',
      property_address = ''567 Sunrise Blvd, Plantation, FL 33317'',
      parcel_id = ''  ''\<rparr>"

section \<open>The deadline sweep\<close>

text \<open>
  Modelled from the spec: the deadline scheduler and the notification centre. Their code
  is not among the sources (the client only lists the deadlines of the mock liens), so
  this section follows the words of sections 3, 4.5 and 4.6 of the specification. The
  state is the partition of one tenant, dates are day numbers, and the order in which a
  sweep lists its alerts is left out.
\<close>

text \<open>Modelled from the spec: the states of a lien (section 4.2).\<close>

datatype lien_status = ACTIVE | REDEEMED | FORECLOSED | EXPIRED

text \<open>Modelled from the spec: the status of a deadline instance (section 3).\<close>

datatype deadline_status = PENDING | COMPLETED

text \<open>Modelled from the spec: a deadline instance, a due date watched on a lien, with
  the set of the thresholds already alerted (section 3).\<close>

record DeadlineInstance =
  di_id :: string
  di_lien_id :: string
  di_kind :: string
  due_date :: int
  di_status :: deadline_status
  fired_thresholds :: "nat set"

text \<open>Modelled from the spec: a notification (section 3), with the threshold it was
  raised for, of which the uniqueness invariant speaks; its id, priority and message are
  left out.\<close>

record Notification =
  n_type :: string
  related_lien_id :: string
  n_threshold :: nat
  created_at :: int
  n_read :: bool

text \<open>Modelled from the spec: what a sweep reads and writes, the status of each lien, the
  deadline instances and the notifications.\<close>

record scheduler =
  lien_statuses :: "(string \<times> lien_status) list"
  deadlines :: "DeadlineInstance list"
  notifications :: "Notification list"

text \<open>Modelled from the spec: the default cascade of thresholds, in days before the due
  date (section 4.5).\<close>

definition thresholds :: "nat list" where
  "thresholds = [90, 60, 30, 14, 7, 3, 1, 0]"

text \<open>Modelled from the spec: the key of the uniqueness invariant of notifications, the
  lien, the threshold and the type (section 3).\<close>

definition triple :: "Notification \<Rightarrow> string \<times> nat \<times> string" where
  "triple n = (related_lien_id n, n_threshold n, n_type n)"

text \<open>Modelled from the spec: \<open>NotificationCenter.Create\<close> (section 4.6). A notification
  whose lien, threshold and type exist already is not stored a second time.\<close>

definition NotificationCenter_Create :: "Notification \<Rightarrow> Notification list \<Rightarrow> Notification list" where
  "NotificationCenter_Create n ns =
     (if list_ex (\<lambda>m. triple m = triple n) ns then ns else ns @ [n])"

text \<open>Modelled from the spec: the notification a sweep emits for a threshold of an
  instance; its type is the kind of the deadline.\<close>

definition deadline_alert :: "int \<Rightarrow> DeadlineInstance \<Rightarrow> nat \<Rightarrow> Notification" where
  "deadline_alert today d T =
     \<lparr>n_type = di_kind d, related_lien_id = di_lien_id d, n_threshold = T,
      created_at = today, n_read = False\<rparr>"

text \<open>Modelled from the spec: the thresholds that fire for an instance on a day, those
  \<open>T\<close> with \<open>days_remaining \<le> T\<close> that are not in \<open>fired_thresholds\<close> (section 4.5).\<close>

definition due_thresholds :: "int \<Rightarrow> DeadlineInstance \<Rightarrow> nat list" where
  "due_thresholds today d =
     filter (\<lambda>T. due_date d - today \<le> int T \<and> T \<notin> fired_thresholds d) thresholds"

text \<open>
  Modelled from the spec: one sweep over the instances (section 4.5). For every pending
  instance of an active lien, each due threshold emits one notification and is added to
  \<open>fired_thresholds\<close>; when the due date has passed, the lien expires and the instance
  is completed. The result is the instances, the lien statuses and the notifications the
  sweep leaves, and the firings it made, each as the id of the instance and the threshold.
\<close>

fun sweep_deadlines ::
  "int \<Rightarrow> DeadlineInstance list \<Rightarrow> (string \<times> lien_status) list \<Rightarrow> Notification list
     \<Rightarrow> DeadlineInstance list \<times> (string \<times> lien_status) list \<times> Notification list
         \<times> (string \<times> nat) list" where
  "sweep_deadlines today [] ls ns = ([], ls, ns, [])"
| "sweep_deadlines today (d # ds) ls ns =
     (if di_status d = PENDING \<and> map_of ls (di_lien_id d) = Some ACTIVE then
        (let due = due_thresholds today d;
             ns1 = foldl (\<lambda>acc T. NotificationCenter_Create (deadline_alert today d T) acc) ns due;
             d1 = d\<lparr>fired_thresholds := fired_thresholds d \<union> set due\<rparr>;
             expired = (due_date d - today < 0);
             d2 = (if expired then d1\<lparr>di_status := COMPLETED\<rparr> else d1);
             ls1 = (if expired then AList.update (di_lien_id d) EXPIRED ls else ls)
         in case sweep_deadlines today ds ls1 ns1 of
              (ds', ls', ns', fired) \<Rightarrow> (d2 # ds', ls', ns', map (Pair (di_id d)) due @ fired))
      else
        (case sweep_deadlines today ds ls ns of
           (ds', ls', ns', fired) \<Rightarrow> (d # ds', ls', ns', fired)))"

text \<open>Modelled from the spec: \<open>RunDeadlineSweep\<close> (section 6), the sweep on the state of
  the scheduler, which returns what it fired.\<close>

definition RunDeadlineSweep :: "int \<Rightarrow> scheduler \<Rightarrow> (string \<times> nat) list \<times> scheduler" where
  "RunDeadlineSweep today st =
     (case sweep_deadlines today (deadlines st) (lien_statuses st) (notifications st) of
        (ds', ls', ns', fired) \<Rightarrow>
          (fired, \<lparr>lien_statuses = ls', deadlines = ds', notifications = ns'\<rparr>))"

text \<open>Modelled from the spec: a sequence of sweeps, one for each day of the list (a day may
  occur several times), with all the firings made.\<close>

fun run_sweeps :: "int list \<Rightarrow> scheduler \<Rightarrow> (string \<times> nat) list \<times> scheduler" where
  "run_sweeps [] st = ([], st)"
| "run_sweeps (today # days) st =
     (case RunDeadlineSweep today st of
        (fired, st1) \<Rightarrow>
          (case run_sweeps days st1 of (fired', st2) \<Rightarrow> (fired @ fired', st2)))"

text \<open>The ledger of a list of instances: every instance with every threshold it has fired.\<close>

definition ledger :: "DeadlineInstance list \<Rightarrow> (string \<times> nat) set" where
  "ledger ds = (\<Union>d \<in> set ds. {di_id d} \<times> fired_thresholds d)"


text \<open>The example of the specification: a lien whose redemption deadline is 29 days out.\<close>

definition example_scheduler :: scheduler where
  "example_scheduler =
     \<lparr>lien_statuses = [(''lien-001'', ACTIVE)],
      deadlines =
        [\<lparr>di_id = ''deadline-lien-001'', di_lien_id = ''lien-001'', di_kind = ''redemption'',
          due_date = 20729, di_status = PENDING, fired_thresholds = {}\<rparr>],
      notifications = []\<rparr>"

section \<open>The client as it is shipped\<close>

text \<open>The source sets \<open>USE_MOCK_DATA\<close> to \<open>true\<close>: every method takes its mock branch.\<close>

lemma USE_MOCK_DATA_on [simp]: "USE_MOCK_DATA = True"
  by (simp add: USE_MOCK_DATA_def)

section \<open>The liens query always yields an array\<close>

lemma isArray_iff: "isArray v \<longleftrightarrow> (\<exists>xs. v = JArray xs)"
  by (cases v) simp_all

lemma getLiens_response_isArray: "isArray (getLiens_response response)"
  by (simp add: getLiens_response_def)

text \<open>
  Claim C10. Whatever the body of the response to the liens query is (a bare array, an
  object with a \<open>liens\<close> array, an object with a nested \<open>data.liens\<close> array, or any
  other value), and in mock mode as well, \<open>getLiens\<close> returns an array, possibly empty:
  it returns no other value and does not throw on the shape of the response.
\<close>

theorem getLiens_returns_array:
  assumes "mock \<or> request env fetch s (getLiens_endpoint P params) no_options = Inr response"
  shows "\<exists>xs. getLiens mock P env fetch s params = Inr (JArray xs)"
proof (cases mock)
  case True
  then show ?thesis by (simp add: getLiens_def)
next
  case False
  with assms have r: "request env fetch s (getLiens_endpoint P params) no_options = Inr response"
    by simp
  obtain xs where "getLiens_response response = JArray xs"
    using getLiens_response_isArray [of response] isArray_iff by blast
  with False r show ?thesis
    by (simp add: getLiens_def)
qed

theorem getLiens_returns_array_witness:
  "request None (\<lambda>url init. Inr (Response True 200 (Some (JString ''unexpected''))))
      apiClient (getLiens_endpoint ref_platform \<lparr>status = None, limit = JUndefined\<rparr>) no_options
     = Inr (JString ''unexpected'')
   \<and> (\<exists>xs. getLiens False ref_platform None
               (\<lambda>url init. Inr (Response True 200 (Some (JString ''unexpected''))))
               apiClient \<lparr>status = None, limit = JUndefined\<rparr> = Inr (JArray xs))"
proof -
  have h: "request None (\<lambda>url init. Inr (Response True 200 (Some (JString ''unexpected''))))
      apiClient (getLiens_endpoint ref_platform \<lparr>status = None, limit = JUndefined\<rparr>) no_options
     = Inr (JString ''unexpected'')"
    by (simp add: request_def)
  from getLiens_returns_array [OF disjI2, OF h] h show ?thesis by blast
qed

section \<open>Doubles\<close>

lemma pow2_powi: "pow2 e = 2 powi e"
  by (simp add: pow2_def power_int_def power_inverse [symmetric] inverse_eq_divide power_one_over)

lemma pow2_pos: "0 < pow2 e"
  by (simp add: pow2_def)

lemma pow2_add: "pow2 (a + b) = pow2 a * pow2 b"
  by (simp add: pow2_powi power_int_add)

lemma pow2_diff: "pow2 (a - b) = pow2 a / pow2 b"
  by (simp add: pow2_powi power_int_diff)

lemma pow2_nat: "pow2 (int k) = 2 ^ k"
  by (simp add: pow2_def)

lemma pow2_mono: "a \<le> b \<Longrightarrow> pow2 a \<le> pow2 b"
proof -
  assume "a \<le> b"
  then obtain k where "b = a + int k" by (metis zle_iff_zadd)
  then have "pow2 b = pow2 a * 2 ^ k" by (simp add: pow2_add pow2_nat)
  moreover have "(1::rat) \<le> 2 ^ k" by simp
  ultimately show ?thesis using pow2_pos [of a] by (simp add: mult_le_cancel_left1)
qed

lemma bit_length_bounds:
  "0 < i \<Longrightarrow> \<exists>k. bit_length i = int (Suc k) \<and> 2 ^ k \<le> i \<and> i < 2 ^ Suc k"
proof (induction i rule: bit_length.induct)
  case (1 i)
  show ?case
  proof (cases "i = 1")
    case True
    have "bit_length 1 = 1 + bit_length 0" by (subst bit_length.simps) simp
    also have "bit_length 0 = 0" by (subst bit_length.simps) simp
    finally have "bit_length i = int (Suc 0) \<and> 2 ^ 0 \<le> i \<and> i < 2 ^ Suc 0"
      using True by simp
    then show ?thesis by blast
  next
    case False
    with "1.prems" have pos: "0 < i div 2" by simp
    from "1.prems" have "\<not> i \<le> 0" by simp
    from "1.IH" [OF this pos] obtain k where
      k: "bit_length (i div 2) = int (Suc k)" "2 ^ k \<le> i div 2" "i div 2 < 2 ^ Suc k"
      by blast
    from "1.prems" k(1) have "bit_length i = int (Suc (Suc k))"
      by (subst bit_length.simps) simp
    moreover from k(2) have "2 ^ Suc k \<le> i" by simp
    moreover from k(3) have "i < 2 ^ Suc (Suc k)" by simp
    ultimately show ?thesis by blast
  qed
qed

lemma round_half_even_floor: "\<lfloor>m\<rfloor> \<le> round_half_even m"
  by (simp add: round_half_even_def Let_def)

lemma round_half_even_ceiling: "round_half_even m \<le> \<lceil>m\<rceil>"
proof -
  have "m - of_int \<lfloor>m\<rfloor> \<noteq> 0 \<Longrightarrow> \<lfloor>m\<rfloor> + 1 \<le> \<lceil>m\<rceil>"
    by (metis add.commute ceiling_altdef eq_iff_diff_eq_0 order_refl)
  moreover have "\<lfloor>m\<rfloor> \<le> \<lceil>m\<rceil>" by (simp add: floor_le_ceiling)
  ultimately show ?thesis
    by (auto simp add: round_half_even_def Let_def)
qed

lemma round_half_even_error: "\<bar>of_int (round_half_even m) - m\<bar> \<le> 1 / 2"
proof -
  have "of_int \<lfloor>m\<rfloor> \<le> m" "m < of_int \<lfloor>m\<rfloor> + 1" by linarith+
  then show ?thesis
    by (auto simp add: round_half_even_def Let_def abs_le_iff)
qed

lemma pow2_less_imp: "pow2 a < pow2 b \<Longrightarrow> a < b"
  using pow2_mono [of b a] by (cases "a < b") auto

lemma ilog2_bounds:
  assumes "0 < x"
  shows "pow2 (ilog2 x) \<le> x" and "x < pow2 (ilog2 x + 1)"
proof -
  obtain a b where q: "quotient_of x = (a, b)" by (cases "quotient_of x") auto
  then have b: "0 < b" and x: "x = of_int a / of_int b"
    by (simp_all add: quotient_of_denom_pos quotient_of_div)
  from x b assms have a: "0 < a"
    by (simp add: zero_less_divide_iff)
  from bit_length_bounds [OF a] obtain k where
    k: "bit_length a = int (Suc k)" "2 ^ k \<le> a" "a < 2 ^ Suc k" by blast
  from bit_length_bounds [OF b] obtain l where
    l: "bit_length b = int (Suc l)" "2 ^ l \<le> b" "b < 2 ^ Suc l" by blast
  define e0 where "e0 = int k - int l"
  have xb: "x * of_int b = of_int a" using x b by simp
  have ak: "(2::rat) ^ k \<le> of_int a" "of_int a < (2::rat) ^ Suc k"
    using k(2,3) by (metis of_int_le_iff of_int_numeral of_int_power,
        metis of_int_less_iff of_int_numeral of_int_power)
  have bl: "(2::rat) ^ l \<le> of_int b" "of_int b < (2::rat) ^ Suc l"
    using l(2,3) by (metis of_int_le_iff of_int_numeral of_int_power,
        metis of_int_less_iff of_int_numeral of_int_power)
  have "x * 2 ^ l \<le> x * of_int b"
    using assms bl(1) by (simp add: mult_left_mono)
  also have "\<dots> = of_int a" by (rule xb)
  also have "\<dots> < 2 ^ Suc k" by (rule ak(2))
  finally have "x < 2 ^ Suc k / 2 ^ l"
    by (simp add: pos_less_divide_eq del: power_Suc)
  moreover have "e0 + 1 = int (Suc k) - int l" by (simp add: e0_def)
  then have "pow2 (e0 + 1) = 2 ^ Suc k / 2 ^ l" by (simp only: pow2_diff pow2_nat)
  ultimately have up: "x < pow2 (e0 + 1)" by simp
  have "2 ^ k \<le> rat_of_int a" by (rule ak(1))
  also have "\<dots> = x * of_int b" by (rule xb [symmetric])
  also have "\<dots> < x * 2 ^ Suc l"
    using assms bl(2) by (simp add: mult_strict_left_mono del: power_Suc)
  finally have "2 ^ k / 2 ^ Suc l < x"
    by (simp add: pos_divide_less_eq del: power_Suc)
  moreover have "e0 - 1 = int k - int (Suc l)" by (simp add: e0_def)
  then have "pow2 (e0 - 1) = 2 ^ k / 2 ^ Suc l" by (simp only: pow2_diff pow2_nat)
  ultimately have lo: "pow2 (e0 - 1) \<le> x" by simp
  have e: "ilog2 x = (if pow2 e0 \<le> x then e0 else e0 - 1)"
    by (simp add: ilog2_def q k(1) l(1) e0_def Let_def)
  show "pow2 (ilog2 x) \<le> x" using e lo by auto
  show "x < pow2 (ilog2 x + 1)" using e up by auto
qed

lemma pow2_neg_nat: "pow2 (- int K) = 1 / 2 ^ K"
  by (simp add: pow2_powi power_int_minus_divide)

lemma round_half_even_int: "round_half_even (of_int c) = c"
  by (simp add: round_half_even_def)

lemma round_double_int:
  fixes N :: int
  assumes "\<bar>N\<bar> < 2 ^ 53"
  shows "round_double (of_int N) = Num (of_int N)"
proof -
  have pos: "round_positive (of_int M) = Num (of_int M)" if M: "0 < M" "M < 2 ^ 53" for M :: int
  proof -
    let ?x = "rat_of_int M"
    have x: "0 < ?x" using M by simp
    define e where "e = ilog2 ?x"
    have lo: "pow2 e \<le> ?x" and up: "?x < pow2 (e + 1)"
      unfolding e_def using ilog2_bounds [OF x] by simp_all
    have "?x < (2::rat) ^ 53" using M(2)
      by (metis of_int_less_iff of_int_numeral of_int_power)
    then have "pow2 e < pow2 53" using lo by (simp add: pow2_def)
    then have e53: "e < 53" by (rule pow2_less_imp)
    have "(1::rat) \<le> ?x" using M(1) by simp
    then have "pow2 0 < pow2 (e + 1)" using up by (simp add: pow2_def)
    then have e0: "0 \<le> e" using pow2_less_imp [of 0 "e + 1"] by simp
    define K where "K = nat (52 - e)"
    have q: "max (e - 52) (- 1074) = - int K" using e53 e0 by (simp add: K_def)
    have pq: "pow2 (- int K) = 1 / 2 ^ K"
      by (rule pow2_neg_nat)
    have m: "?x / pow2 (- int K) = of_int (M * 2 ^ K)" by (simp add: pq)
    have "round_positive ?x = Num (of_int (M * 2 ^ K) * pow2 (- int K))"
      using e53 unfolding round_positive_def e_def [symmetric] Let_def q m round_half_even_int
      by simp
    then show ?thesis by (simp add: pq)
  qed
  show ?thesis
  proof (cases "N = 0")
    case True
    then show ?thesis by (simp add: round_double_def)
  next
    case False
    show ?thesis
    proof (cases "0 < N")
      case True
      with assms pos [of N] show ?thesis by (simp add: round_double_def)
    next
      case neg: False
      with False assms have "0 < - N" "- N < 2 ^ 53" by simp_all
      from pos [OF this] neg False show ?thesis by (simp add: round_double_def)
    qed
  qed
qed

lemma round_double_pos: "0 < x \<Longrightarrow> round_double x = round_positive x"
  by (simp add: round_double_def)

lemma round_double_neg: "x < 0 \<Longrightarrow> round_double x = num_neg (round_positive (- x))"
  by (simp add: round_double_def)

lemma round_positive_grid:
  fixes N :: int
  assumes N: "0 < N" "N < 2 ^ 53"
  shows "\<exists>y. round_positive (of_int N / ms_per_day) = Num y
           \<and> (\<forall>c::int. (of_int c \<le> of_int N / ms_per_day \<longrightarrow> of_int c \<le> y)
                     \<and> (of_int N / ms_per_day \<le> of_int c \<longrightarrow> y \<le> of_int c)
                     \<and> (of_int N / ms_per_day < of_int c \<longrightarrow> y < of_int c)
                     \<and> (of_int c < of_int N / ms_per_day \<longrightarrow> of_int c < y))"
proof -
  define z where "z = rat_of_int N / ms_per_day"
  have D: "ms_per_day = 86400000" by (simp add: ms_per_day_def)
  have N1: "(1::rat) \<le> of_int N" using N(1) by simp
  have N53: "rat_of_int N < 9007199254740992"
  proof -
    from N(2) have "N < 9007199254740992" by simp
    then show ?thesis by (metis of_int_less_iff of_int_numeral)
  qed
  have z0: "0 < z" using N1 by (simp add: z_def D)
  have zD: "z * 86400000 = of_int N" by (simp add: z_def D)
  define e where "e = ilog2 z"
  have lo: "pow2 e \<le> z" and up: "z < pow2 (e + 1)"
    unfolding e_def using ilog2_bounds [OF z0] by simp_all
  have "z < pow2 27" using N53 by (simp add: z_def D pow2_def)
  with lo have "pow2 e < pow2 27" by simp
  then have e27: "e < 27" by (rule pow2_less_imp)
  have "pow2 (- 27) \<le> z" using N1 by (simp add: z_def D pow2_def)
  with up have "pow2 (- 27) < pow2 (e + 1)" by simp
  then have em: "- 27 < e + 1" by (rule pow2_less_imp)
  define K where "K = nat (52 - e)"
  have K26: "26 \<le> K" using e27 by (simp add: K_def)
  have q: "max (e - 52) (- 1074) = - int K" using e27 em by (simp add: K_def)
  have pq: "pow2 (- int K) = 1 / 2 ^ K" by (rule pow2_neg_nat)
  define m where "m = z * 2 ^ K"
  have m: "z / pow2 (- int K) = m" by (simp add: pq m_def)
  define n where "n = round_half_even m"
  have rp: "round_positive z = Num (of_int n / 2 ^ K)"
    using e27 unfolding round_positive_def e_def [symmetric] Let_def q m n_def [symmetric]
    by (simp add: pq)
  have "(2::rat) ^ 26 \<le> 2 ^ K" using K26 by (rule power_increasing) simp
  then have big: "(67108864::rat) \<le> 2 ^ K" by simp
  have pos: "(0::rat) < 2 ^ K" by simp
  have err: "\<bar>of_int n - m\<bar> \<le> 1 / 2" unfolding n_def by (rule round_half_even_error)
  have "\<forall>c::int. (of_int c \<le> z \<longrightarrow> rat_of_int c \<le> of_int n / 2 ^ K)
                     \<and> (z \<le> of_int c \<longrightarrow> rat_of_int n / 2 ^ K \<le> of_int c)
                     \<and> (z < of_int c \<longrightarrow> rat_of_int n / 2 ^ K < of_int c)
                     \<and> (of_int c < z \<longrightarrow> rat_of_int c < of_int n / 2 ^ K)"
  proof (intro allI conjI impI)
    fix c :: int
    assume "of_int c \<le> z"
    then have "rat_of_int (c * 2 ^ K) \<le> m" by (simp add: m_def)
    then have "c * 2 ^ K \<le> \<lfloor>m\<rfloor>" by (simp only: le_floor_iff)
    also have "\<dots> \<le> n" unfolding n_def by (rule round_half_even_floor)
    finally have "rat_of_int (c * 2 ^ K) \<le> of_int n" by (simp only: of_int_le_iff)
    then show "rat_of_int c \<le> of_int n / 2 ^ K" by (simp add: pos_le_divide_eq)
  next
    fix c :: int
    assume "z \<le> of_int c"
    then have "m \<le> rat_of_int (c * 2 ^ K)" by (simp add: m_def)
    then have "\<lceil>m\<rceil> \<le> c * 2 ^ K" by (simp only: ceiling_le_iff)
    with round_half_even_ceiling [of m] have "n \<le> c * 2 ^ K" by (simp add: n_def)
    then have "rat_of_int n \<le> of_int (c * 2 ^ K)" by (simp only: of_int_le_iff)
    then show "rat_of_int n / 2 ^ K \<le> of_int c" by (simp add: pos_divide_le_eq)
  next
    fix c :: int
    assume "z < of_int c"
    then have "z * 86400000 < of_int c * 86400000" by simp
    with zD have "rat_of_int N < of_int (c * 86400000)" by simp
    then have "N < c * 86400000" by (simp only: of_int_less_iff)
    then have "N + 1 \<le> c * 86400000" by simp
    then have "rat_of_int (N + 1) \<le> of_int (c * 86400000)" by (simp only: of_int_le_iff)
    with zD have "z * 86400000 + 1 \<le> of_int c * 86400000" by simp
    then have zc: "z + 1 / 86400000 \<le> of_int c" by (simp add: field_simps)
    have "(z + 1 / 86400000) * 2 ^ K \<le> of_int c * 2 ^ K"
      using zc pos by (simp only: mult_le_cancel_right_pos)
    then have "m + 2 ^ K / 86400000 \<le> of_int c * 2 ^ K"
      by (simp add: m_def distrib_right)
    moreover have "1 / 2 < (2::rat) ^ K / 86400000" using big by simp
    moreover have "of_int n \<le> m + 1 / 2" using err by linarith
    ultimately have "rat_of_int n < of_int c * 2 ^ K" by linarith
    then show "rat_of_int n / 2 ^ K < of_int c" by (simp add: pos_divide_less_eq)
  next
    fix c :: int
    assume "of_int c < z"
    then have "of_int c * 86400000 < z * 86400000" by simp
    with zD have "rat_of_int (c * 86400000) < of_int N" by simp
    then have "c * 86400000 < N" by (simp only: of_int_less_iff)
    then have "c * 86400000 + 1 \<le> N" by simp
    then have "rat_of_int (c * 86400000 + 1) \<le> of_int N" by (simp only: of_int_le_iff)
    with zD have "of_int c * 86400000 + 1 \<le> z * 86400000" by simp
    then have zc: "of_int c + 1 / 86400000 \<le> z" by (simp add: field_simps)
    have "(of_int c + 1 / 86400000) * 2 ^ K \<le> z * 2 ^ K"
      using zc pos by (simp only: mult_le_cancel_right_pos)
    then have "of_int c * 2 ^ K + 2 ^ K / 86400000 \<le> m"
      by (simp add: m_def distrib_right)
    moreover have "1 / 2 < (2::rat) ^ K / 86400000" using big by simp
    moreover have "m - 1 / 2 \<le> of_int n" using err by linarith
    ultimately have "of_int c * 2 ^ K < rat_of_int n" by linarith
    then show "rat_of_int c < of_int n / 2 ^ K" by (simp add: pos_less_divide_eq)
  qed
  with rp show ?thesis unfolding z_def by blast
qed

lemma days_in_doubles:
  fixes N :: int
  assumes "\<bar>N\<bar> < 2 ^ 53"
  shows "\<exists>y. round_double (of_int N / ms_per_day) = Num y
           \<and> \<lfloor>y\<rfloor> = \<lfloor>rat_of_int N / ms_per_day\<rfloor>"
proof -
  have D: "(0::rat) < ms_per_day" by (simp add: ms_per_day_def)
  let ?z = "rat_of_int N / ms_per_day"
  consider "N = 0" | "0 < N" | "N < 0" by linarith
  then show ?thesis
  proof cases
    case 1
    then show ?thesis by (simp add: round_double_def)
  next
    case 2
    with assms have "N < 2 ^ 53" by simp
    from round_positive_grid [OF 2 this] obtain y where
      y: "round_positive ?z = Num y"
      and b: "\<And>c::int. of_int c \<le> ?z \<Longrightarrow> of_int c \<le> y"
        "\<And>c::int. ?z < of_int c \<Longrightarrow> y < of_int c"
      by blast
    have "of_int \<lfloor>?z\<rfloor> \<le> y" by (rule b(1)) simp
    moreover have "y < of_int (\<lfloor>?z\<rfloor> + 1)" by (rule b(2)) linarith
    ultimately have "\<lfloor>y\<rfloor> = \<lfloor>?z\<rfloor>" by (intro floor_unique) simp_all
    moreover from 2 D have "0 < ?z" by simp
    then have "round_double ?z = round_positive ?z" by (rule round_double_pos)
    ultimately show ?thesis using y by simp
  next
    case 3
    then have p: "0 < - N" by simp
    from assms 3 have "- N < 2 ^ 53" by simp
    from round_positive_grid [OF p this] obtain y where
      y: "round_positive (of_int (- N) / ms_per_day) = Num y"
      and b: "\<And>c::int. of_int (- N) / ms_per_day \<le> of_int c \<Longrightarrow> y \<le> of_int c"
        "\<And>c::int. of_int c < of_int (- N) / ms_per_day \<Longrightarrow> of_int c < y"
      by blast
    define w where "w = ?z"
    have neg: "of_int (- N) / ms_per_day = - w" by (simp add: w_def)
    have fw: "of_int \<lfloor>w\<rfloor> \<le> w" "w < of_int \<lfloor>w\<rfloor> + 1" by linarith+
    have "of_int (- N) / ms_per_day \<le> of_int (- \<lfloor>w\<rfloor>)"
      unfolding neg using fw(1) by simp
    then have "y \<le> of_int (- \<lfloor>w\<rfloor>)" by (rule b(1))
    moreover have "of_int (- \<lfloor>w\<rfloor> - 1) < of_int (- N) / ms_per_day"
      unfolding neg using fw(2) by simp
    then have "of_int (- \<lfloor>w\<rfloor> - 1) < y" by (rule b(2))
    ultimately have "of_int \<lfloor>w\<rfloor> \<le> - y" "- y < of_int \<lfloor>w\<rfloor> + 1" by simp_all
    then have "\<lfloor>- y\<rfloor> = \<lfloor>?z\<rfloor>" unfolding w_def by (intro floor_unique)
    moreover from 3 D have "?z < 0" by (simp add: divide_neg_pos)
    then have "round_double ?z = num_neg (round_positive (- ?z))"
      by (rule round_double_neg)
    ultimately show ?thesis using y neg by (simp add: w_def)
  qed
qed

text \<open>
  The day count in doubles. For whole time values less than \<open>2 ^ 53\<close> milliseconds apart,
  the rounded difference is the exact one, which \<open>time_sub\<close> takes, and the rounded
  quotient by the milliseconds of a day has the floor of the exact quotient, which
  \<open>time_div\<close> takes: \<open>days_held\<close> is the same number either way.
\<close>

lemma days_held_in_doubles:
  fixes T D :: int
  assumes "\<bar>T - D\<bar> < 2 ^ 53"
  shows "round_double (of_int T - of_int D) = time_sub (Num (of_int T)) (Num (of_int D))"
    and "\<exists>y. round_double ((of_int T - of_int D) / ms_per_day) = Num y
           \<and> num_floor (Num y)
               = num_floor (time_div (time_sub (Num (of_int T)) (Num (of_int D))) ms_per_day)"
proof -
  have d: "rat_of_int T - of_int D = of_int (T - D)" by simp
  show "round_double (of_int T - of_int D) = time_sub (Num (of_int T)) (Num (of_int D))"
    unfolding d using round_double_int [OF assms] by simp
  from days_in_doubles [OF assms] obtain y where
    "round_double (of_int (T - D) / ms_per_day) = Num y"
    "\<lfloor>y\<rfloor> = \<lfloor>rat_of_int (T - D) / ms_per_day\<rfloor>"
    by blast
  then show "\<exists>y. round_double ((of_int T - of_int D) / ms_per_day) = Num y
           \<and> num_floor (Num y)
               = num_floor (time_div (time_sub (Num (of_int T)) (Num (of_int D))) ms_per_day)"
    unfolding d by simp
qed

section \<open>The interest calculation\<close>

text \<open>
  Claim C2, as the claim states it, fails: the products and quotients are those of IEEE
  doubles, each rounded. For the mock lien \<open>lien-004\<close>, 15000 at 18 percent, 365 days
  after its purchase date the interest returned is 2699.9999999999995 and not
  \<open>15000 * (18 / 100 / 365) * 365 = 2700\<close>.
\<close>

theorem interest_rounding_counterexample:
  "get_prop (mockData_liens ! 3) ''id'' = JString ''lien-004''
   \<and> get_prop (mockData_liens ! 3) ''purchase_amount'' = JNumber (Num 15000)
   \<and> get_prop (mockData_liens ! 3) ''interest_rate'' = JNumber (Num 18)
   \<and> Date_time ref_platform (get_prop (mockData_liens ! 3) ''purchase_date'') = Num 1712534400000
   \<and> 1744070400000 = 1712534400000 + 365 * (86400000 :: int)
   \<and> calculateInterest USE_MOCK_DATA ref_platform None no_network 1744070400000 apiClient
        ''lien-004''
     = Inr (JObject
         [(''lien_id'', JString ''lien-004''),
          (''days_held'', JNumber (Num 365)),
          (''accrued_interest'', JNumber (Num (5937362789990399 / 2199023255552))),
          (''total_value'', JNumber (Num 17700)),
          (''calculation_date'', JString ''2025-04-08T00:00:00.000Z'')])
   \<and> (5937362789990399 / 2199023255552 :: rat) \<noteq> 15000 * (18 / 100 / 365) * 365"
proof -
  have l: "get_prop (mockData_liens ! 3) ''id'' = JString ''lien-004''
     \<and> get_prop (mockData_liens ! 3) ''purchase_amount'' = JNumber (Num 15000)
     \<and> get_prop (mockData_liens ! 3) ''interest_rate'' = JNumber (Num 18)
     \<and> Date_time ref_platform (get_prop (mockData_liens ! 3) ''purchase_date'') = Num 1712534400000"
    by code_simp
  have r: "calculateInterest USE_MOCK_DATA ref_platform None no_network 1744070400000 apiClient
        ''lien-004''
     = Inr (JObject
         [(''lien_id'', JString ''lien-004''),
          (''days_held'', JNumber (Num 365)),
          (''accrued_interest'', JNumber (Num (5937362789990399 / 2199023255552))),
          (''total_value'', JNumber (Num 17700)),
          (''calculation_date'', JString ''2025-04-08T00:00:00.000Z'')])"
    by code_simp
  have n: "(5937362789990399 / 2199023255552 :: rat) \<noteq> 15000 * (18 / 100 / 365) * 365"
    by simp
  from l r n show ?thesis by simp
qed

text \<open>
  Claim C2, amended. For a lien with principal \<open>p\<close>, annual rate \<open>r\<close> and purchase date
  \<open>D\<close>, the interest calculation at the clock reading \<open>T\<close> returns as \<open>days_held\<close> the
  whole number of days from \<open>D\<close> to \<open>T\<close>, floored, as \<open>accrued_interest\<close> the simple
  interest \<open>p * (r / 100 / 365) * days_held\<close> and as \<open>total_value\<close> the principal plus
  that interest, where each division, multiplication and addition is the one of IEEE
  doubles, rounded to the nearest double. At \<open>p = 8500\<close>, \<open>r = 18\<close> and \<open>T\<close> 365 days
  after \<open>D\<close> it returns 365 days, 1530 and 10030 exactly, which is the example below.
\<close>

theorem calculateInterest_formula:
  assumes "find (has_id lienId) (liens s) = Some lien"
    and "get_prop lien ''purchase_amount'' = JNumber (Num p)"
    and "get_prop lien ''interest_rate'' = JNumber (Num r)"
    and "Date_time P (get_prop lien ''purchase_date'') = Num D"
  shows "calculateInterest USE_MOCK_DATA P env fetch T s lienId =
     Inr (JObject
       [(''lien_id'', JString lienId),
        (''days_held'', JNumber (Num (of_int \<lfloor>(of_int T - D) / ms_per_day\<rfloor>))),
        (''accrued_interest'',
           JNumber (num_mul (num_mul (Num p) (num_div (num_div (Num r) 100) 365))
                      (Num (of_int \<lfloor>(of_int T - D) / ms_per_day\<rfloor>)))),
        (''total_value'',
           JNumber (num_add (Num p)
                      (num_mul (num_mul (Num p) (num_div (num_div (Num r) 100) 365))
                         (Num (of_int \<lfloor>(of_int T - D) / ms_per_day\<rfloor>))))),
        (''calculation_date'', JString (toISOString P T))])"
  using assms by (simp add: calculateInterest_def Let_def)

theorem calculateInterest_formula_witness:
  "find (has_id ''lien-001'') (liens apiClient) = Some (hd mockData_liens)
   \<and> get_prop (hd mockData_liens) ''purchase_amount'' = JNumber (Num 8500)
   \<and> get_prop (hd mockData_liens) ''interest_rate'' = JNumber (Num 18)
   \<and> Date_time ref_platform (get_prop (hd mockData_liens) ''purchase_date'') = Num 1715731200000
   \<and> 1747267200000 = 1715731200000 + 365 * (86400000 :: int)
   \<and> calculateInterest USE_MOCK_DATA ref_platform None no_network 1747267200000 apiClient ''lien-001'' =
       Inr (JObject
         [(''lien_id'', JString ''lien-001''),
          (''days_held'', JNumber (Num 365)),
          (''accrued_interest'', JNumber (Num 1530)),
          (''total_value'', JNumber (Num 10030)),
          (''calculation_date'', JString ''2025-05-15T00:00:00.000Z'')])"
proof -
  have h1: "find (has_id ''lien-001'') (liens apiClient) = Some (hd mockData_liens)"
    by code_simp
  have h2: "get_prop (hd mockData_liens) ''purchase_amount'' = JNumber (Num 8500)"
    by code_simp
  have h3: "get_prop (hd mockData_liens) ''interest_rate'' = JNumber (Num 18)"
    by code_simp
  have h4: "Date_time ref_platform (get_prop (hd mockData_liens) ''purchase_date'') = Num 1715731200000"
    by code_simp
  have iso: "toISOString ref_platform 1747267200000 = ''2025-05-15T00:00:00.000Z''"
    by code_simp
  have fl: "\<lfloor>((1747267200000 :: rat) - 1715731200000) / ms_per_day\<rfloor> = 365"
    by (simp add: ms_per_day_def)
  have a: "num_mul (num_mul (Num 8500) (num_div (num_div (Num 18) 100) 365)) (Num 365) = Num 1530"
    by code_simp
  have t: "num_add (Num 8500) (Num 1530) = Num 10030"
    by code_simp
  have "calculateInterest USE_MOCK_DATA ref_platform None no_network 1747267200000 apiClient ''lien-001'' =
       Inr (JObject
         [(''lien_id'', JString ''lien-001''),
          (''days_held'', JNumber (Num 365)),
          (''accrued_interest'', JNumber (Num 1530)),
          (''total_value'', JNumber (Num 10030)),
          (''calculation_date'', JString ''2025-05-15T00:00:00.000Z'')])"
    unfolding calculateInterest_formula [OF h1 h2 h3 h4, of None no_network 1747267200000]
      iso of_int_numeral fl a t
    by (rule refl)
  with h1 h2 h3 h4 show ?thesis by simp
qed

text \<open>
  Claim C5, as the claim states it, fails: the calculation takes no date. It reads the
  clock, so two invocations with the same lien record differ when the clock has moved on
  by a day.
\<close>

theorem interest_depends_on_clock_counterexample:
  "calculateInterest USE_MOCK_DATA ref_platform None no_network 1747267200000 apiClient ''lien-001''
   \<noteq> calculateInterest USE_MOCK_DATA ref_platform None no_network 1747353600000 apiClient ''lien-001''"
  by code_simp

text \<open>
  Claim C5, amended. The result of the interest calculation is determined by the lien
  record found under the given id and by the reading of the clock at the call: two
  invocations that find the same record at the same clock reading return the same result,
  whatever the tenant identifier, the payments, the other liens and the network are.
\<close>

theorem calculateInterest_reads_lien_and_clock:
  assumes "find (has_id lienId) (liens s) = find (has_id lienId) (liens s')"
  shows "calculateInterest USE_MOCK_DATA P env fetch now s lienId
       = calculateInterest USE_MOCK_DATA P env' fetch' now s' lienId"
  using assms by (simp add: calculateInterest_def)

theorem calculateInterest_reads_lien_and_clock_witness:
  "find (has_id ''lien-001'') (liens apiClient)
     = find (has_id ''lien-001'')
         (liens \<lparr>tenantId = JString ''tenant-B'',
                 liens = mockData_liens @ [[(''id'', JString ''lien-extra'')]],
                 payments = []\<rparr>)
   \<and> calculateInterest USE_MOCK_DATA ref_platform None no_network 1747267200000 apiClient ''lien-001''
     = calculateInterest USE_MOCK_DATA ref_platform (Some ''https://example.org'') echo_fetch 1747267200000
         \<lparr>tenantId = JString ''tenant-B'',
          liens = mockData_liens @ [[(''id'', JString ''lien-extra'')]],
          payments = []\<rparr> ''lien-001''"
proof -
  have h: "find (has_id ''lien-001'') (liens apiClient)
     = find (has_id ''lien-001'')
         (liens \<lparr>tenantId = JString ''tenant-B'',
                 liens = mockData_liens @ [[(''id'', JString ''lien-extra'')]],
                 payments = []\<rparr>)"
    by code_simp
  from calculateInterest_reads_lien_and_clock [OF h] h show ?thesis by blast
qed

text \<open>
  Claim C6, as the claim states it, fails: a lien created with a purchase date after the
  clock reading gets a result, not a failure, and its \<open>days_held\<close> is negative.
\<close>

theorem negative_days_held_counterexample:
  "calculateInterest USE_MOCK_DATA ref_platform None no_network 1790000000000
     (snd (projr (createLien USE_MOCK_DATA ref_platform None no_network 1790000000000 apiClient
          [(''certificate_number'', JString ''MD-2027-0001''),
           (''purchase_amount'', JNumber (Num 1000)),
           (''interest_rate'', JNumber (Num 18)),
           (''purchase_date'', JString ''2027-01-01'')])))
     ''lien-1790000000000''
   = Inr (JObject
       [(''lien_id'', JString ''lien-1790000000000''),
        (''days_held'', JNumber (Num (- 102))),
        (''accrued_interest'', JNumber (Num (- (7079288455352937 / 140737488355328)))),
        (''total_value'', JNumber (Num (8353637493748441 / 8796093022208))),
        (''calculation_date'', JString ''2026-09-21T14:13:20.000Z'')])"
proof -
  have c: "snd (projr (createLien USE_MOCK_DATA ref_platform None no_network 1790000000000 apiClient
          [(''certificate_number'', JString ''MD-2027-0001''),
           (''purchase_amount'', JNumber (Num 1000)),
           (''interest_rate'', JNumber (Num 18)),
           (''purchase_date'', JString ''2027-01-01'')]))
     = \<lparr>tenantId = JString ''demo-user'',
        liens = mockData_liens @
          [[(''id'', JString ''lien-1790000000000''),
            (''certificate_number'', JString ''MD-2027-0001''),
            (''purchase_amount'', JNumber (Num 1000)),
            (''interest_rate'', JNumber (Num 18)),
            (''purchase_date'', JString ''2027-01-01'')]],
        payments = mockData_payments\<rparr>"
    by (simp add: createLien_def Let_def spread_def string_of_int_def digit_char_def apiClient_def
        constructor_def DEFAULT_TENANT_def)
  have r: "calculateInterest USE_MOCK_DATA ref_platform None no_network 1790000000000
      \<lparr>tenantId = JString ''demo-user'',
        liens = mockData_liens @
          [[(''id'', JString ''lien-1790000000000''),
            (''certificate_number'', JString ''MD-2027-0001''),
            (''purchase_amount'', JNumber (Num 1000)),
            (''interest_rate'', JNumber (Num 18)),
            (''purchase_date'', JString ''2027-01-01'')]],
        payments = mockData_payments\<rparr>
      ''lien-1790000000000''
   = Inr (JObject
       [(''lien_id'', JString ''lien-1790000000000''),
        (''days_held'', JNumber (Num (- 102))),
        (''accrued_interest'', JNumber (Num (- (7079288455352937 / 140737488355328)))),
        (''total_value'', JNumber (Num (8353637493748441 / 8796093022208))),
        (''calculation_date'', JString ''2026-09-21T14:13:20.000Z'')])"
    by code_simp
  show ?thesis unfolding c by (rule r)
qed

text \<open>
  Claim C6, amended. In mock mode the interest calculation fails in one case only, when
  no lien has the given id; no failure depends on the dates. For a lien whose purchase
  date is a valid date it returns as \<open>days_held\<close> the floored number of days from the
  purchase date to the clock reading, which is negative exactly when the clock reading is
  earlier than the purchase date.
\<close>

theorem calculateInterest_days_held:
  "(calculateInterest USE_MOCK_DATA P env fetch now s lienId = Inl e
      \<longrightarrow> e = lien_not_found \<and> find (has_id lienId) (liens s) = None)
   \<and> (find (has_id lienId) (liens s) = Some lien
        \<and> Date_time P (get_prop lien ''purchase_date'') = Num D
      \<longrightarrow> (\<exists>r. calculateInterest USE_MOCK_DATA P env fetch now s lienId = Inr (JObject r)
             \<and> get_prop r ''days_held'' = JNumber (Num (of_int \<lfloor>(of_int now - D) / ms_per_day\<rfloor>))
             \<and> (\<lfloor>(of_int now - D) / ms_per_day\<rfloor> < 0 \<longleftrightarrow> of_int now < D)))"
proof -
  have pos: "(0::rat) < ms_per_day" by (simp add: ms_per_day_def)
  have "(\<lfloor>(of_int now - D) / ms_per_day\<rfloor> < 0) = ((of_int now - D) / ms_per_day < 0)"
    by (simp add: floor_less_iff)
  also have "\<dots> = (of_int now - D < 0)"
    using pos by (simp add: divide_less_0_iff)
  finally have neg: "(\<lfloor>(of_int now - D) / ms_per_day\<rfloor> < 0) = (of_int now < D)" by simp
  show ?thesis
    using neg by (auto simp add: calculateInterest_def Let_def get_prop_def split: option.splits)
qed

theorem calculateInterest_days_held_witness:
  "calculateInterest USE_MOCK_DATA ref_platform None no_network 1700000000000 apiClient ''lien-999''
     = Inl lien_not_found
   \<and> find (has_id ''lien-999'') (liens apiClient) = None
   \<and> find (has_id ''lien-001'') (liens apiClient) = Some (hd mockData_liens)
   \<and> Date_time ref_platform (get_prop (hd mockData_liens) ''purchase_date'') = Num 1715731200000
   \<and> (\<exists>r. calculateInterest USE_MOCK_DATA ref_platform None no_network 1700000000000 apiClient ''lien-001''
            = Inr (JObject r)
          \<and> get_prop r ''days_held'' = JNumber (Num (- 183)))"
proof -
  have e: "calculateInterest USE_MOCK_DATA ref_platform None no_network 1700000000000 apiClient ''lien-999''
     = Inl lien_not_found"
    by code_simp
  have h1: "find (has_id ''lien-001'') (liens apiClient) = Some (hd mockData_liens)"
    by code_simp
  have h2: "Date_time ref_platform (get_prop (hd mockData_liens) ''purchase_date'') = Num 1715731200000"
    by code_simp
  have fl: "\<lfloor>(rat_of_int 1700000000000 - 1715731200000) / ms_per_day\<rfloor> = - 183"
    by (rule floor_unique) (simp_all add: ms_per_day_def)
  from calculateInterest_days_held
         [of ref_platform None no_network 1700000000000 apiClient "''lien-999''" lien_not_found]
       e
  have n: "find (has_id ''lien-999'') (liens apiClient) = None" by blast
  from calculateInterest_days_held
         [of ref_platform None no_network 1700000000000 apiClient "''lien-001''" _
             "hd mockData_liens" 1715731200000]
       h1 h2
  obtain r where "calculateInterest USE_MOCK_DATA ref_platform None no_network 1700000000000 apiClient
           ''lien-001'' = Inr (JObject r)"
      and "get_prop r ''days_held''
           = JNumber (Num (of_int \<lfloor>(rat_of_int 1700000000000 - 1715731200000) / ms_per_day\<rfloor>))"
    by blast
  with fl have "\<exists>r. calculateInterest USE_MOCK_DATA ref_platform None no_network 1700000000000 apiClient
           ''lien-001'' = Inr (JObject r) \<and> get_prop r ''days_held'' = JNumber (Num (- 183))"
    by simp
  with e n h1 h2 show ?thesis by blast
qed

section \<open>The tenant identifier\<close>

lemma map_of_spread:
  "k \<notin> fst ` set b \<Longrightarrow> map_of (spread a b) k = map_of a k"
  unfolding spread_def
  by (induction b arbitrary: a) (auto simp add: update_conv')

text \<open>
  Claim C1, as the claim states it, fails: with the mock data switched on the client keeps
  one store for all tenant identifiers. A lien created while the tenant identifier is
  \<open>tenant-B\<close> is returned by the liens query issued under \<open>tenant-A\<close>.
\<close>

theorem tenant_isolation_counterexample:
  "getLiens USE_MOCK_DATA ref_platform None no_network
     (setTenantId (JString ''tenant-A'')
        (snd (projr (createLien USE_MOCK_DATA ref_platform None no_network 1790000000000
                       (setTenantId (JString ''tenant-B'') apiClient)
                       [(''certificate_number'', JString ''B-0001'')]))))
     \<lparr>status = None, limit = JUndefined\<rparr>
   = Inr (JArray (map JObject
       (mockData_liens @
          [[(''id'', JString ''lien-1790000000000''),
            (''certificate_number'', JString ''B-0001'')]])))"
  by (simp add: getLiens_def getLiens_mock_def setTenantId_def createLien_def Let_def spread_def
      string_of_int_def digit_char_def apiClient_def constructor_def)

text \<open>
  Claim C1, amended. With the mock data switched on, what a read returns (the liens
  query, one lien, the payments of a lien, the interest calculation) depends on the mock
  store and on the arguments of the call only, and not on the tenant identifier: the same
  call under any two tenant identifiers returns the same result. The tenant identifier
  only reaches the network: a request carries it in the \<open>X-Tenant-ID\<close> header.
\<close>

theorem reads_ignore_tenant:
  "getLiens USE_MOCK_DATA P env fetch (setTenantId A s) params = getLiens USE_MOCK_DATA P env fetch (setTenantId B s) params
   \<and> getLien USE_MOCK_DATA env fetch (setTenantId A s) lienId = getLien USE_MOCK_DATA env fetch (setTenantId B s) lienId
   \<and> getPayments USE_MOCK_DATA env fetch (setTenantId A s) lienId
     = getPayments USE_MOCK_DATA env fetch (setTenantId B s) lienId
   \<and> calculateInterest USE_MOCK_DATA P env fetch now (setTenantId A s) lienId
     = calculateInterest USE_MOCK_DATA P env fetch now (setTenantId B s) lienId
   \<and> get_prop (request_headers (setTenantId A s) no_options) ''X-Tenant-ID'' = A"
  by (simp add: getLiens_def getLiens_mock_def getLien_def getPayments_def payments_entry_def
      calculateInterest_def setTenantId_def request_headers_def no_options_def spread_def
      get_prop_def)

text \<open>
  Claim C8, as the claim states it, fails: a client on which no tenant identifier was ever
  set sends its request under the default tenant \<open>demo-user\<close> and gets the answer.
\<close>

theorem default_tenant_counterexample:
  "request None echo_fetch apiClient ''/liens'' no_options
   = Inr (JObject
       [(''url'', JString ''/api/liens''),
        (''headers'', JObject [(''Content-Type'', JString ''application/json''),
                               (''X-Tenant-ID'', JString ''demo-user'')])])"
  by (simp add: request_def echo_fetch_def apiClient_def constructor_def DEFAULT_TENANT_def
      request_headers_def no_options_def spread_def API_BASE_def)

text \<open>
  Claim C8, amended. No operation fails for want of a tenant identifier. A client starts
  with the tenant identifier \<open>DEFAULT_TENANT\<close>; every request carries the current tenant
  identifier in the \<open>X-Tenant-ID\<close> header, unless the headers of its options set
  that header themselves; and a request returns the body of any successful JSON response,
  whatever the tenant identifier is, \<open>undefined\<close> included.
\<close>

theorem tenant_defaulted_and_sent:
  "tenantId (constructor ls ps) = JString DEFAULT_TENANT
   \<and> (''X-Tenant-ID'' \<notin> fst ` set (headers options)
        \<longrightarrow> get_prop (request_headers s options) ''X-Tenant-ID'' = tenantId s)
   \<and> (fetch (API_BASE env @ endpoint) (options\<lparr>headers := request_headers s options\<rparr>)
          = Inr (Response True st (Some v))
        \<longrightarrow> request env fetch s endpoint options = Inr v)"
  by (simp add: constructor_def request_headers_def get_prop_def map_of_spread request_def)

theorem tenant_defaulted_and_sent_witness:
  "''X-Tenant-ID'' \<notin> fst ` set (headers no_options)
   \<and> get_prop (request_headers apiClient no_options) ''X-Tenant-ID'' = JString ''demo-user''
   \<and> echo_fetch (API_BASE None @ ''/liens'')
         (no_options\<lparr>headers := request_headers (setTenantId JUndefined apiClient) no_options\<rparr>)
       = Inr (Response True 200
           (Some (JObject
              [(''url'', JString ''/api/liens''),
               (''headers'', JObject [(''Content-Type'', JString ''application/json''),
                                      (''X-Tenant-ID'', JUndefined)])])))
   \<and> request None echo_fetch (setTenantId JUndefined apiClient) ''/liens'' no_options
       = Inr (JObject
              [(''url'', JString ''/api/liens''),
               (''headers'', JObject [(''Content-Type'', JString ''application/json''),
                                      (''X-Tenant-ID'', JUndefined)])])"
proof -
  have h1: "''X-Tenant-ID'' \<notin> fst ` set (headers no_options)"
    by (simp add: no_options_def)
  have t: "tenantId apiClient = JString ''demo-user''"
    by (simp add: apiClient_def constructor_def DEFAULT_TENANT_def)
  have h2: "echo_fetch (API_BASE None @ ''/liens'')
         (no_options\<lparr>headers := request_headers (setTenantId JUndefined apiClient) no_options\<rparr>)
       = Inr (Response True 200
           (Some (JObject
              [(''url'', JString ''/api/liens''),
               (''headers'', JObject [(''Content-Type'', JString ''application/json''),
                                      (''X-Tenant-ID'', JUndefined)])])))"
    by (simp add: echo_fetch_def API_BASE_def request_headers_def no_options_def spread_def
        setTenantId_def)
  from tenant_defaulted_and_sent [of _ _ no_options apiClient] h1 t
  have c1: "get_prop (request_headers apiClient no_options) ''X-Tenant-ID'' = JString ''demo-user''"
    by simp
  from tenant_defaulted_and_sent
         [of _ _ no_options "setTenantId JUndefined apiClient" echo_fetch None "''/liens''"] h2
  have c2: "request None echo_fetch (setTenantId JUndefined apiClient) ''/liens'' no_options
       = Inr (JObject
              [(''url'', JString ''/api/liens''),
               (''headers'', JObject [(''Content-Type'', JString ''application/json''),
                                      (''X-Tenant-ID'', JUndefined)])])"
    by blast
  from h1 c1 h2 c2 show ?thesis by blast
qed

section \<open>Payments\<close>

text \<open>
  Claim C3, as the claim states it, fails: with the mock data switched on, a payment of the
  full accrued value against the active lien \<open>lien-001\<close> is recorded and leaves the lien
  as it was, status \<open>active\<close> included, and a second payment is recorded as well.
\<close>

theorem payment_no_redemption_counterexample:
  "get_prop (hd mockData_liens) ''status'' = JString ''active''
   \<and> recordPayment USE_MOCK_DATA ref_platform None no_network apiClient ''lien-001'' example_payment
     = Inr (example_payment,
            apiClient\<lparr>payments := mockData_payments @ [(''lien-001'', [example_payment])]\<rparr>)
   \<and> getLien USE_MOCK_DATA None no_network
        (apiClient\<lparr>payments := mockData_payments @ [(''lien-001'', [example_payment])]\<rparr>)
        ''lien-001''
     = Inr (JObject (hd mockData_liens))
   \<and> recordPayment USE_MOCK_DATA ref_platform None no_network
        (apiClient\<lparr>payments := mockData_payments @ [(''lien-001'', [example_payment])]\<rparr>)
        ''lien-001'' example_payment
     = Inr (example_payment,
            apiClient\<lparr>payments :=
              mockData_payments @ [(''lien-001'', [example_payment, example_payment])]\<rparr>)"
  by code_simp

text \<open>
  Claim C3, amended. With the mock data switched on, \<open>recordPayment\<close> appends the
  payment to the payments kept under the lien id and returns it, for every lien id that
  is not the name of a member of \<open>Object.prototype\<close>, whatever the status of the lien and
  whatever the amount: the liens stay as they were, so no lien becomes redeemed, and no
  payment is rejected.
\<close>

theorem recordPayment_appends:
  assumes "lienId \<notin> set object_prototype_keys"
  shows "\<exists>s'. recordPayment USE_MOCK_DATA P env fetch s lienId data = Inr (data, s')
           \<and> liens s' = liens s \<and> tenantId s' = tenantId s
           \<and> map_of (payments s') lienId
               = Some ((case map_of (payments s) lienId of None \<Rightarrow> [] | Some ps \<Rightarrow> ps) @ [data])
           \<and> getPayments USE_MOCK_DATA env fetch s' lienId
               = Inr (JArray ((case map_of (payments s) lienId of None \<Rightarrow> [] | Some ps \<Rightarrow> ps)
                              @ [data]))"
proof (cases "map_of (payments s) lienId")
  case None
  with assms show ?thesis
    by (simp add: recordPayment_def payments_entry_def getPayments_def update_conv')
next
  case (Some ps)
  then show ?thesis
    by (simp add: recordPayment_def payments_entry_def getPayments_def update_conv')
qed

theorem recordPayment_appends_witness:
  "''lien-005'' \<notin> set object_prototype_keys
   \<and> get_prop (mockData_liens ! 4) ''id'' = JString ''lien-005''
   \<and> get_prop (mockData_liens ! 4) ''status'' = JString ''redeemed''
   \<and> (\<exists>s'. recordPayment USE_MOCK_DATA ref_platform None no_network apiClient ''lien-005'' example_payment
              = Inr (example_payment, s')
           \<and> liens s' = liens apiClient
           \<and> getPayments USE_MOCK_DATA None no_network s' ''lien-005''
               = Inr (JArray [mock_payment ''2024-08-15'' 8760, example_payment]))"
proof -
  have h: "''lien-005'' \<notin> set object_prototype_keys"
    by (simp add: object_prototype_keys_def)
  have l: "get_prop (mockData_liens ! 4) ''id'' = JString ''lien-005''
     \<and> get_prop (mockData_liens ! 4) ''status'' = JString ''redeemed''"
    by code_simp
  have p: "map_of (payments apiClient) ''lien-005'' = Some [mock_payment ''2024-08-15'' 8760]"
    by (simp add: apiClient_def constructor_def mockData_payments_def)
  from recordPayment_appends [OF h, of ref_platform None no_network apiClient example_payment]
  obtain s' where "recordPayment USE_MOCK_DATA ref_platform None no_network apiClient ''lien-005''
        example_payment = Inr (example_payment, s')"
    and "liens s' = liens apiClient"
    and "getPayments USE_MOCK_DATA None no_network s' ''lien-005''
          = Inr (JArray ((case map_of (payments apiClient) ''lien-005'' of
                            None \<Rightarrow> [] | Some ps \<Rightarrow> ps) @ [example_payment]))"
    by blast
  with p have "\<exists>s'. recordPayment USE_MOCK_DATA ref_platform None no_network apiClient ''lien-005''
        example_payment = Inr (example_payment, s')
           \<and> liens s' = liens apiClient
           \<and> getPayments USE_MOCK_DATA None no_network s' ''lien-005''
               = Inr (JArray [mock_payment ''2024-08-15'' 8760, example_payment])"
    by simp
  with h l show ?thesis by blast
qed

section \<open>Deleting a lien\<close>

lemma findIndex_Some:
  "findIndex p xs = Some i \<Longrightarrow> i < length xs \<and> p (xs ! i)"
  by (induction xs arbitrary: i) (auto split: if_splits)

lemma retrievable_iff: "retrievable s k \<longleftrightarrow> (\<exists>x \<in> set (liens s). has_id k x)"
  by (auto simp add: retrievable_def find_None_iff)

lemma has_id_spread:
  "''id'' \<notin> fst ` set data \<Longrightarrow> has_id k (spread old data) = has_id k old"
  by (simp add: has_id_def get_prop_def map_of_spread)

lemma retrievable_update:
  assumes "i < length xs" and "p (xs ! i) = p y" and "\<exists>x \<in> set xs. p x"
  shows "\<exists>x \<in> set (xs[i := y]). p x"
proof -
  from assms(3) obtain j where j: "j < length xs" "p (xs ! j)"
    by (auto simp add: in_set_conv_nth)
  show ?thesis
  proof (cases "j = i")
    case True
    with j assms(1,2) have "p y" by simp
    moreover from assms(1) have "y \<in> set (xs[i := y])" by (simp add: set_update_memI)
    ultimately show ?thesis by blast
  next
    case False
    with j have "(xs[i := y]) ! j = xs ! j" "j < length (xs[i := y])" by simp_all
    with j(2) show ?thesis by (metis nth_mem)
  qed
qed

text \<open>
  Claim C7, as the claim states it, fails: \<open>deleteLien\<close> takes the lien out of the store,
  and the lien is not retrievable afterwards.
\<close>

theorem deleteLien_removes_counterexample:
  "getLien USE_MOCK_DATA None no_network apiClient ''lien-001'' = Inr (JObject (hd mockData_liens))
   \<and> deleteLien USE_MOCK_DATA None no_network apiClient ''lien-001''
     = Inr (JObject [(''success'', JBool True)], apiClient\<lparr>liens := tl mockData_liens\<rparr>)
   \<and> getLien USE_MOCK_DATA None no_network (apiClient\<lparr>liens := tl mockData_liens\<rparr>) ''lien-001''
     = Inl lien_not_found"
  by code_simp

text \<open>
  Claim C7, amended. With the mock data switched on, \<open>deleteLien\<close> removes the first lien
  with the given id from the store, which is one lien shorter afterwards; it is not a
  retirement through the status field. The other operations keep every lien retrievable:
  \<open>createLien\<close>, \<open>recordPayment\<close>, and \<open>updateLien\<close> when the update does not set the
  \<open>id\<close> field.
\<close>

theorem only_deleteLien_removes:
  "(createLien USE_MOCK_DATA P env fetch now s data = Inr (v1, s1) \<and> retrievable s k
      \<longrightarrow> retrievable s1 k)
   \<and> (updateLien USE_MOCK_DATA P env fetch s lienId data = Inr (v2, s2) \<and> ''id'' \<notin> fst ` set data
        \<and> retrievable s k
      \<longrightarrow> retrievable s2 k)
   \<and> (recordPayment USE_MOCK_DATA P env fetch s lienId pay = Inr (v3, s3) \<longrightarrow> liens s3 = liens s)
   \<and> (deleteLien USE_MOCK_DATA env fetch s lienId = Inr (v4, s4)
      \<longrightarrow> (\<exists>i. findIndex (has_id lienId) (liens s) = Some i \<and> liens s4 = splice1 i (liens s))
          \<and> length (liens s4) + 1 = length (liens s))"
proof (intro conjI impI)
  assume "createLien USE_MOCK_DATA P env fetch now s data = Inr (v1, s1) \<and> retrievable s k"
  then show "retrievable s1 k"
    by (auto simp add: createLien_def Let_def retrievable_iff)
next
  assume a: "updateLien USE_MOCK_DATA P env fetch s lienId data = Inr (v2, s2)
      \<and> ''id'' \<notin> fst ` set data \<and> retrievable s k"
  then obtain i where i: "findIndex (has_id lienId) (liens s) = Some i"
    and s2: "liens s2 = (liens s)[i := spread (liens s ! i) data]"
    by (auto simp add: updateLien_def Let_def split: option.splits)
  from i have "i < length (liens s)" by (simp add: findIndex_Some)
  moreover from a have "has_id k (liens s ! i) = has_id k (spread (liens s ! i) data)"
    by (simp add: has_id_spread)
  moreover from a have "\<exists>x \<in> set (liens s). has_id k x"
    by (simp add: retrievable_iff)
  ultimately have "\<exists>x \<in> set ((liens s)[i := spread (liens s ! i) data]). has_id k x"
    by (rule retrievable_update)
  with s2 show "retrievable s2 k"
    by (simp add: retrievable_iff)
next
  assume "recordPayment USE_MOCK_DATA P env fetch s lienId pay = Inr (v3, s3)"
  then show "liens s3 = liens s"
    by (auto simp add: recordPayment_def Let_def split: jsval.splits if_splits)
next
  assume d: "deleteLien USE_MOCK_DATA env fetch s lienId = Inr (v4, s4)"
  then obtain i where i: "findIndex (has_id lienId) (liens s) = Some i"
    and s4: "liens s4 = splice1 i (liens s)"
    by (auto simp add: deleteLien_def split: option.splits)
  then show "\<exists>i. findIndex (has_id lienId) (liens s) = Some i \<and> liens s4 = splice1 i (liens s)"
    by blast
  from i have "i < length (liens s)" by (simp add: findIndex_Some)
  with s4 show "length (liens s4) + 1 = length (liens s)"
    by (simp add: splice1_def)
qed

theorem only_deleteLien_removes_witness:
  "createLien USE_MOCK_DATA ref_platform None no_network 1790000000000 apiClient
       [(''certificate_number'', JString ''MD-2026-0001'')]
     = Inr (JObject [(''id'', JString ''lien-1790000000000''),
                     (''certificate_number'', JString ''MD-2026-0001'')],
            apiClient\<lparr>liens := mockData_liens @
               [[(''id'', JString ''lien-1790000000000''),
                 (''certificate_number'', JString ''MD-2026-0001'')]]\<rparr>)
   \<and> retrievable apiClient ''lien-003''
   \<and> retrievable (apiClient\<lparr>liens := mockData_liens @
               [[(''id'', JString ''lien-1790000000000''),
                 (''certificate_number'', JString ''MD-2026-0001'')]]\<rparr>) ''lien-003''
   \<and> updateLien USE_MOCK_DATA ref_platform None no_network apiClient ''lien-002''
       [(''status'', JString ''redeemed'')]
     = Inr (JObject (spread (mockData_liens ! 1) [(''status'', JString ''redeemed'')]),
            apiClient\<lparr>liens :=
              mockData_liens[1 := spread (mockData_liens ! 1) [(''status'', JString ''redeemed'')]]\<rparr>)
   \<and> ''id'' \<notin> fst ` set [(''status'', JString ''redeemed'')]
   \<and> retrievable (apiClient\<lparr>liens :=
              mockData_liens[1 := spread (mockData_liens ! 1) [(''status'', JString ''redeemed'')]]\<rparr>)
         ''lien-003''
   \<and> recordPayment USE_MOCK_DATA ref_platform None no_network apiClient ''lien-002'' example_payment
     = Inr (example_payment,
            apiClient\<lparr>payments := mockData_payments @ [(''lien-002'', [example_payment])]\<rparr>)
   \<and> liens (apiClient\<lparr>payments := mockData_payments @ [(''lien-002'', [example_payment])]\<rparr>)
     = liens apiClient
   \<and> deleteLien USE_MOCK_DATA None no_network apiClient ''lien-002''
     = Inr (JObject [(''success'', JBool True)], apiClient\<lparr>liens := splice1 1 mockData_liens\<rparr>)
   \<and> length (liens (apiClient\<lparr>liens := splice1 1 mockData_liens\<rparr>)) + 1
     = length (liens apiClient)"
proof -
  have c: "createLien USE_MOCK_DATA ref_platform None no_network 1790000000000 apiClient
       [(''certificate_number'', JString ''MD-2026-0001'')]
     = Inr (JObject [(''id'', JString ''lien-1790000000000''),
                     (''certificate_number'', JString ''MD-2026-0001'')],
            apiClient\<lparr>liens := mockData_liens @
               [[(''id'', JString ''lien-1790000000000''),
                 (''certificate_number'', JString ''MD-2026-0001'')]]\<rparr>)"
    by (simp add: createLien_def Let_def spread_def string_of_int_def digit_char_def apiClient_def
        constructor_def)
  have k: "retrievable apiClient ''lien-003''"
    by code_simp
  have u: "updateLien USE_MOCK_DATA ref_platform None no_network apiClient ''lien-002''
       [(''status'', JString ''redeemed'')]
     = Inr (JObject (spread (mockData_liens ! 1) [(''status'', JString ''redeemed'')]),
            apiClient\<lparr>liens :=
              mockData_liens[1 := spread (mockData_liens ! 1) [(''status'', JString ''redeemed'')]]\<rparr>)"
    by code_simp
  have i: "''id'' \<notin> fst ` set [(''status'', JString ''redeemed'')]"
    by simp
  have p: "recordPayment USE_MOCK_DATA ref_platform None no_network apiClient ''lien-002'' example_payment
     = Inr (example_payment,
            apiClient\<lparr>payments := mockData_payments @ [(''lien-002'', [example_payment])]\<rparr>)"
    by code_simp
  have d: "deleteLien USE_MOCK_DATA None no_network apiClient ''lien-002''
     = Inr (JObject [(''success'', JBool True)], apiClient\<lparr>liens := splice1 1 mockData_liens\<rparr>)"
    by code_simp
  from only_deleteLien_removes
         [of ref_platform None no_network 1790000000000 apiClient
             "[(''certificate_number'', JString ''MD-2026-0001'')]" _ _ "''lien-003''"]
       c k
  have r1: "retrievable (apiClient\<lparr>liens := mockData_liens @
               [[(''id'', JString ''lien-1790000000000''),
                 (''certificate_number'', JString ''MD-2026-0001'')]]\<rparr>) ''lien-003''"
    by blast
  from only_deleteLien_removes
         [of ref_platform None no_network _ apiClient "[(''status'', JString ''redeemed'')]" _ _
             "''lien-003''" "''lien-002''"]
       u i k
  have r2: "retrievable (apiClient\<lparr>liens :=
              mockData_liens[1 := spread (mockData_liens ! 1) [(''status'', JString ''redeemed'')]]\<rparr>)
         ''lien-003''"
    by blast
  from only_deleteLien_removes
         [of ref_platform None no_network _ apiClient _ _ _ _ "''lien-002''" _ _ example_payment]
       p
  have r3: "liens (apiClient\<lparr>payments := mockData_payments @ [(''lien-002'', [example_payment])]\<rparr>)
     = liens apiClient"
    by blast
  from only_deleteLien_removes [of _ None no_network _ apiClient _ _ _ _ "''lien-002''"] d
  have r4: "length (liens (apiClient\<lparr>liens := splice1 1 mockData_liens\<rparr>)) + 1
     = length (liens apiClient)"
    by blast
  from c k r1 u i r2 p r3 d r4 show ?thesis by blast
qed

section \<open>Validation of a new lien\<close>

lemma num_le_iff_not_lt: "a \<noteq> NaN \<Longrightarrow> b \<noteq> NaN \<Longrightarrow> num_le a b \<longleftrightarrow> \<not> num_lt b a"
  by (cases a; cases b) auto

lemma num_lt_iff_not_le: "a \<noteq> NaN \<Longrightarrow> b \<noteq> NaN \<Longrightarrow> num_lt a b \<longleftrightarrow> \<not> num_le b a"
  by (cases a; cases b) auto

lemma errors_certificate_number:
  "map fst (if trim P (certificate_number fd) = []
      then [(''certificate_number'', ''Certificate number is required'')] else [])
   = (if trim P (certificate_number fd) = [] then [''certificate_number''] else [])"
  by simp

lemma errors_purchase_amount:
  assumes "purchase_amount fd = [] \<or> parseFloat P (purchase_amount fd) \<noteq> NaN"
  shows "map fst (if purchase_amount fd = [] \<or> num_le (parseFloat P (purchase_amount fd)) (Num 0)
      then [(''purchase_amount'', ''Purchase amount must be greater than 0'')] else [])
   = (if purchase_amount fd = [] \<or> \<not> num_lt (Num 0) (parseFloat P (purchase_amount fd))
      then [''purchase_amount''] else [])"
  using assms by (auto simp add: num_le_iff_not_lt)

lemma errors_interest_rate:
  assumes "interest_rate fd = [] \<or> parseFloat P (interest_rate fd) \<noteq> NaN"
  shows "map fst (if interest_rate fd = []
      then [(''interest_rate'', ''Interest rate is required'')]
      else (let rate = parseFloat P (interest_rate fd)
            in if num_lt rate (Num 0) \<or> num_lt (Num 100) rate
               then [(''interest_rate'', ''Interest rate must be between 0 and 100'')] else []))
   = (if interest_rate fd = []
         \<or> \<not> (num_le (Num 0) (parseFloat P (interest_rate fd))
               \<and> num_le (parseFloat P (interest_rate fd)) (Num 100))
      then [''interest_rate''] else [])"
  using assms by (auto simp add: Let_def num_lt_iff_not_le)

lemma errors_redemption_deadline:
  assumes "sale_date fd = [] \<or> Date_time P (JString (sale_date fd)) \<noteq> NaN"
    and "redemption_deadline fd = [] \<or> Date_time P (JString (redemption_deadline fd)) \<noteq> NaN"
  shows "map fst (if redemption_deadline fd = []
      then [(''redemption_deadline'', ''Redemption deadline is required'')]
      else if sale_date fd \<noteq> [] \<and> redemption_deadline fd \<noteq> [] then
        (if num_le (Date_time P (JString (redemption_deadline fd)))
              (Date_time P (JString (sale_date fd)))
         then [(''redemption_deadline'', ''Redemption deadline must be after sale date'')]
         else [])
      else [])
   = (if redemption_deadline fd = []
         \<or> (sale_date fd \<noteq> []
             \<and> \<not> num_lt (Date_time P (JString (sale_date fd)))
                     (Date_time P (JString (redemption_deadline fd))))
      then [''redemption_deadline''] else [])"
  using assms by (auto simp add: num_le_iff_not_lt)

lemma validateForm_errors_fields:
  assumes "typed_inputs P fd"
  shows "map fst (validateForm_errors P fd) = invariant_violations P fd"
proof -
  from assms have a: "purchase_amount fd = [] \<or> parseFloat P (purchase_amount fd) \<noteq> NaN"
    and r: "interest_rate fd = [] \<or> parseFloat P (interest_rate fd) \<noteq> NaN"
    and s: "sale_date fd = [] \<or> Date_time P (JString (sale_date fd)) \<noteq> NaN"
    and d: "redemption_deadline fd = [] \<or> Date_time P (JString (redemption_deadline fd)) \<noteq> NaN"
    by (simp_all add: typed_inputs_def)
  show ?thesis
    unfolding validateForm_errors_def invariant_violations_def map_append
    by (simp only: errors_certificate_number errors_purchase_amount [OF a]
        errors_interest_rate [OF r] errors_redemption_deadline [OF s d]) simp
qed

text \<open>
  Claim C9. A form for a new lien that violates one or more of the lien invariants (the
  principal greater than 0, the annual rate between 0 and 100, the redemption deadline
  after the purchase date, the required fields present) is not submitted: it fails with a
  validation error that names every field whose constraint is violated, not the first one
  only. In particular a redemption deadline on or before the purchase date is reported
  under \<open>redemption_deadline\<close>. The form's inputs are typed: its number and date fields
  hold the empty string, a numeral or a date.
\<close>

theorem validateForm_lists_every_violation:
  assumes "typed_inputs P fd"
  shows "map fst (validateForm_errors P fd) = invariant_violations P fd
   \<and> (invariant_violations P fd \<noteq> []
        \<longrightarrow> handleSubmit mock P env fetch now s fd = ValidationError (validateForm_errors P fd))
   \<and> (sale_date fd \<noteq> [] \<and> redemption_deadline fd \<noteq> []
        \<and> num_le (Date_time P (JString (redemption_deadline fd)))
                  (Date_time P (JString (sale_date fd)))
      \<longrightarrow> ''redemption_deadline'' \<in> fst ` set (validateForm_errors P fd))"
proof (intro conjI impI)
  show f: "map fst (validateForm_errors P fd) = invariant_violations P fd"
    using assms by (rule validateForm_errors_fields)
  {
    assume "invariant_violations P fd \<noteq> []"
    with f have "validateForm_errors P fd \<noteq> []" by auto
    then show "handleSubmit mock P env fetch now s fd = ValidationError (validateForm_errors P fd)"
      by (simp add: handleSubmit_def validateForm_def)
  }
  {
    assume "sale_date fd \<noteq> [] \<and> redemption_deadline fd \<noteq> []
        \<and> num_le (Date_time P (JString (redemption_deadline fd)))
                  (Date_time P (JString (sale_date fd)))"
    then show "''redemption_deadline'' \<in> fst ` set (validateForm_errors P fd)"
      by (simp add: validateForm_errors_def)
  }
qed

theorem validateForm_lists_every_violation_witness:
  "typed_inputs ref_platform example_form
   \<and> invariant_violations ref_platform example_form
     = [''certificate_number'', ''purchase_amount'', ''interest_rate'', ''redemption_deadline'',
        ''parcel_id'']
   \<and> num_le (Date_time ref_platform (JString (redemption_deadline example_form)))
             (Date_time ref_platform (JString (sale_date example_form)))
   \<and> handleSubmit USE_MOCK_DATA ref_platform None no_network 1790000000000 apiClient example_form
     = ValidationError
         [(''certificate_number'', ''Certificate number is required''),
          (''purchase_amount'', ''Purchase amount must be greater than 0''),
          (''interest_rate'', ''Interest rate must be between 0 and 100''),
          (''redemption_deadline'', ''Redemption deadline must be after sale date''),
          (''parcel_id'', ''Parcel ID is required'')]
   \<and> ''redemption_deadline'' \<in> fst ` set (validateForm_errors ref_platform example_form)"
proof -
  have h: "typed_inputs ref_platform example_form"
    by code_simp
  have v: "invariant_violations ref_platform example_form
     = [''certificate_number'', ''purchase_amount'', ''interest_rate'', ''redemption_deadline'',
        ''parcel_id'']"
    by code_simp
  have e: "validateForm_errors ref_platform example_form
     = [(''certificate_number'', ''Certificate number is required''),
        (''purchase_amount'', ''Purchase amount must be greater than 0''),
        (''interest_rate'', ''Interest rate must be between 0 and 100''),
        (''redemption_deadline'', ''Redemption deadline must be after sale date''),
        (''parcel_id'', ''Parcel ID is required'')]"
    by code_simp
  have d: "sale_date example_form \<noteq> [] \<and> redemption_deadline example_form \<noteq> []
     \<and> num_le (Date_time ref_platform (JString (redemption_deadline example_form)))
               (Date_time ref_platform (JString (sale_date example_form)))"
    by code_simp
  from validateForm_lists_every_violation
         [OF h, of USE_MOCK_DATA None no_network 1790000000000 apiClient] v d
  have "handleSubmit USE_MOCK_DATA ref_platform None no_network 1790000000000 apiClient example_form
          = ValidationError (validateForm_errors ref_platform example_form)
      \<and> ''redemption_deadline'' \<in> fst ` set (validateForm_errors ref_platform example_form)"
    by simp
  with h v d e show ?thesis by simp
qed

section \<open>The deadline sweep fires each threshold once\<close>

lemma Create_distinct:
  "distinct (map triple ns) \<Longrightarrow> distinct (map triple (NotificationCenter_Create n ns))"
  by (auto simp add: NotificationCenter_Create_def list_ex_iff)

lemma foldl_Create_distinct:
  "distinct (map triple ns)
   \<Longrightarrow> distinct (map triple (foldl (\<lambda>acc T. NotificationCenter_Create (f T) acc) ns Ts))"
  by (induction Ts arbitrary: ns) (simp_all add: Create_distinct)

lemma sweep_deadlines_notifications:
  "distinct (map triple ns) \<Longrightarrow> sweep_deadlines today ds ls ns = (ds', ls', ns', fired)
   \<Longrightarrow> distinct (map triple ns')"
proof (induction ds arbitrary: ls ns ds' ls' ns' fired)
  case Nil
  then show ?case by simp
next
  case (Cons d ds)
  show ?case
  proof (cases "di_status d = PENDING \<and> map_of ls (di_lien_id d) = Some ACTIVE")
    case True
    let ?ns1 = "foldl (\<lambda>acc T. NotificationCenter_Create (deadline_alert today d T) acc) ns
                  (due_thresholds today d)"
    let ?ls1 = "if due_date d - today < 0 then AList.update (di_lien_id d) EXPIRED ls else ls"
    obtain ds2 ls2 ns2 f2 where r: "sweep_deadlines today ds ?ls1 ?ns1 = (ds2, ls2, ns2, f2)"
      by (cases "sweep_deadlines today ds ?ls1 ?ns1") auto
    from Cons.prems(1) have "distinct (map triple ?ns1)" by (rule foldl_Create_distinct)
    then have "distinct (map triple ns2)" using r by (rule Cons.IH)
    moreover from Cons.prems(2) True r have "ns' = ns2" by (simp add: Let_def)
    ultimately show ?thesis by simp
  next
    case False
    obtain ds2 ls2 ns2 f2 where r: "sweep_deadlines today ds ls ns = (ds2, ls2, ns2, f2)"
      by (cases "sweep_deadlines today ds ls ns") auto
    from Cons.prems(1) r have "distinct (map triple ns2)" by (rule Cons.IH)
    moreover from Cons.prems(2) False r have "ns' = ns2" by auto
    ultimately show ?thesis by simp
  qed
qed

lemma due_thresholds_distinct: "distinct (due_thresholds today d)"
  by (simp add: due_thresholds_def thresholds_def)

lemma due_thresholds_unfired: "set (due_thresholds today d) \<inter> fired_thresholds d = {}"
  by (auto simp add: due_thresholds_def)

lemma ledger_Cons: "ledger (d # ds) = {di_id d} \<times> fired_thresholds d \<union> ledger ds"
  by (simp add: ledger_def)

lemma ledger_ids: "fst ` ledger ds \<subseteq> di_id ` set ds"
  by (auto simp add: ledger_def)

lemma fresh_disjoint:
  assumes "i \<notin> A" and "fst ` S \<subseteq> A"
  shows "({i} \<times> T) \<inter> S = {}" and "S \<inter> ({i} \<times> T) = {}"
proof -
  show "({i} \<times> T) \<inter> S = {}"
  proof (rule ccontr)
    assume "({i} \<times> T) \<inter> S \<noteq> {}"
    then obtain x where x: "x \<in> {i} \<times> T" "x \<in> S" by blast
    then have "fst x = i" "fst x \<in> A" using assms(2) by auto
    with assms(1) show False by simp
  qed
  then show "S \<inter> ({i} \<times> T) = {}" by (simp add: Int_commute)
qed

lemma sweep_deadlines_ledger:
  "distinct (map di_id ds) \<Longrightarrow> sweep_deadlines today ds ls ns = (ds', ls', ns', fired)
   \<Longrightarrow> map di_id ds' = map di_id ds
       \<and> fst ` set fired \<subseteq> di_id ` set ds
       \<and> ledger ds' = ledger ds \<union> set fired
       \<and> set fired \<inter> ledger ds = {}
       \<and> distinct fired"
proof (induction ds arbitrary: ls ns ds' ls' ns' fired)
  case Nil
  then show ?case by (simp add: ledger_def)
next
  case (Cons d ds)
  from Cons.prems(1) have dist: "distinct (map di_id ds)" and fresh: "di_id d \<notin> di_id ` set ds"
    by simp_all
  show ?case
  proof (cases "di_status d = PENDING \<and> map_of ls (di_lien_id d) = Some ACTIVE")
    case True
    let ?due = "due_thresholds today d"
    let ?ns1 = "foldl (\<lambda>acc T. NotificationCenter_Create (deadline_alert today d T) acc) ns ?due"
    let ?ls1 = "if due_date d - today < 0 then AList.update (di_lien_id d) EXPIRED ls else ls"
    let ?d1 = "d\<lparr>fired_thresholds := fired_thresholds d \<union> set ?due\<rparr>"
    let ?d2 = "if due_date d - today < 0 then ?d1\<lparr>di_status := COMPLETED\<rparr> else ?d1"
    obtain ds2 ls2 ns2 f2 where r: "sweep_deadlines today ds ?ls1 ?ns1 = (ds2, ls2, ns2, f2)"
      by (cases "sweep_deadlines today ds ?ls1 ?ns1") auto
    from Cons.IH [OF dist r]
    have ih: "map di_id ds2 = map di_id ds" "fst ` set f2 \<subseteq> di_id ` set ds"
      "ledger ds2 = ledger ds \<union> set f2" "set f2 \<inter> ledger ds = {}" "distinct f2"
      by simp_all
    from Cons.prems(2) True r
    have ds': "ds' = ?d2 # ds2" and fired: "fired = map (Pair (di_id d)) ?due @ f2"
      by (simp_all add: Let_def)
    have id2: "di_id ?d2 = di_id d" and f2': "fired_thresholds ?d2 = fired_thresholds d \<union> set ?due"
      by simp_all
    have new: "set (map (Pair (di_id d)) ?due) = {di_id d} \<times> set ?due"
      by auto
    have a: "map di_id ds' = map di_id (d # ds)"
      using ds' ih(1) id2 by simp
    have b: "fst ` set fired \<subseteq> di_id ` set (d # ds)"
      using fired ih(2) by auto
    have "ledger ds' = {di_id d} \<times> (fired_thresholds d \<union> set ?due) \<union> ledger ds2"
      unfolding ds' ledger_Cons id2 f2' by (rule refl)
    also have "\<dots> = ({di_id d} \<times> fired_thresholds d \<union> ledger ds)
                    \<union> ({di_id d} \<times> set ?due \<union> set f2)"
      unfolding ih(3) by auto
    also have "\<dots> = ledger (d # ds) \<union> set fired"
      unfolding fired ledger_Cons set_append new by (rule refl)
    finally have c: "ledger ds' = ledger (d # ds) \<union> set fired" .
    have "({di_id d} \<times> set ?due) \<inter> ({di_id d} \<times> fired_thresholds d) = {}"
      using due_thresholds_unfired [of today d] by blast
    moreover have "({di_id d} \<times> set ?due) \<inter> ledger ds = {}"
      using fresh ledger_ids [of ds] by (rule fresh_disjoint(1))
    moreover have "set f2 \<inter> ({di_id d} \<times> fired_thresholds d) = {}"
      using fresh ih(2) by (rule fresh_disjoint(2))
    ultimately have "({di_id d} \<times> set ?due \<union> set f2)
                      \<inter> ({di_id d} \<times> fired_thresholds d \<union> ledger ds) = {}"
      using ih(4) by (simp add: Int_Un_distrib Int_Un_distrib2)
    then have e: "set fired \<inter> ledger (d # ds) = {}"
      unfolding fired ledger_Cons set_append new .
    have "set (map (Pair (di_id d)) ?due) \<inter> set f2 = {}"
      unfolding new using fresh ih(2) by (rule fresh_disjoint(1))
    moreover have "distinct (map (Pair (di_id d)) ?due)"
      using due_thresholds_distinct by (simp add: distinct_map inj_on_def)
    ultimately have f: "distinct fired"
      unfolding fired using ih(5) by simp
    from a b c e f show ?thesis by blast
  next
    case False
    obtain ds2 ls2 ns2 f2 where r: "sweep_deadlines today ds ls ns = (ds2, ls2, ns2, f2)"
      by (cases "sweep_deadlines today ds ls ns") auto
    from Cons.IH [OF dist r]
    have ih: "map di_id ds2 = map di_id ds" "fst ` set f2 \<subseteq> di_id ` set ds"
      "ledger ds2 = ledger ds \<union> set f2" "set f2 \<inter> ledger ds = {}" "distinct f2"
      by simp_all
    from Cons.prems(2) False r have ds': "ds' = d # ds2" and fired: "fired = f2"
      by auto
    have g: "set f2 \<inter> ({di_id d} \<times> fired_thresholds d) = {}"
      using fresh ih(2) by (rule fresh_disjoint(2))
    have a: "map di_id ds' = map di_id (d # ds)"
      using ds' ih(1) by simp
    have b: "fst ` set fired \<subseteq> di_id ` set (d # ds)"
      using fired ih(2) by auto
    have c: "ledger ds' = ledger (d # ds) \<union> set fired"
      unfolding ds' fired ledger_Cons ih(3) by auto
    have e: "set fired \<inter> ledger (d # ds) = {}"
      unfolding fired ledger_Cons using g ih(4) by (simp add: Int_Un_distrib)
    from a b c e ih(5) fired show ?thesis by blast
  qed
qed

lemma RunDeadlineSweep_ledger:
  assumes "distinct (map di_id (deadlines st))" and "RunDeadlineSweep today st = (fired, st')"
  shows "map di_id (deadlines st') = map di_id (deadlines st)
       \<and> ledger (deadlines st') = ledger (deadlines st) \<union> set fired
       \<and> set fired \<inter> ledger (deadlines st) = {}
       \<and> distinct fired"
proof -
  obtain ds2 ls2 ns2 f2 where
    r: "sweep_deadlines today (deadlines st) (lien_statuses st) (notifications st) = (ds2, ls2, ns2, f2)"
    by (cases "sweep_deadlines today (deadlines st) (lien_statuses st) (notifications st)") auto
  with assms(2) have "deadlines st' = ds2" "fired = f2"
    by (auto simp add: RunDeadlineSweep_def)
  with sweep_deadlines_ledger [OF assms(1) r] show ?thesis by simp
qed

lemma run_sweeps_ledger:
  "distinct (map di_id (deadlines st)) \<Longrightarrow> run_sweeps days st = (fired, st')
   \<Longrightarrow> map di_id (deadlines st') = map di_id (deadlines st)
       \<and> ledger (deadlines st') = ledger (deadlines st) \<union> set fired
       \<and> set fired \<inter> ledger (deadlines st) = {}
       \<and> distinct fired"
proof (induction days arbitrary: st fired st')
  case Nil
  then show ?case by simp
next
  case (Cons today days)
  obtain f1 st1 where s1: "RunDeadlineSweep today st = (f1, st1)"
    by (cases "RunDeadlineSweep today st") auto
  obtain f2 st2 where s2: "run_sweeps days st1 = (f2, st2)"
    by (cases "run_sweeps days st1") auto
  from Cons.prems(2) s1 s2 have res: "fired = f1 @ f2" "st' = st2" by simp_all
  from RunDeadlineSweep_ledger [OF Cons.prems(1) s1]
  have one: "map di_id (deadlines st1) = map di_id (deadlines st)"
    "ledger (deadlines st1) = ledger (deadlines st) \<union> set f1"
    "set f1 \<inter> ledger (deadlines st) = {}" "distinct f1"
    by simp_all
  from one(1) Cons.prems(1) have "distinct (map di_id (deadlines st1))" by simp
  from Cons.IH [OF this s2]
  have rest: "map di_id (deadlines st2) = map di_id (deadlines st1)"
    "ledger (deadlines st2) = ledger (deadlines st1) \<union> set f2"
    "set f2 \<inter> ledger (deadlines st1) = {}" "distinct f2"
    by simp_all
  from one rest show ?case unfolding res by auto
qed

lemma run_sweeps_notifications:
  "distinct (map triple (notifications st)) \<Longrightarrow> run_sweeps days st = (fired, st')
   \<Longrightarrow> distinct (map triple (notifications st'))"
proof (induction days arbitrary: st fired st')
  case Nil
  then show ?case by simp
next
  case (Cons today days)
  obtain f1 st1 where s1: "RunDeadlineSweep today st = (f1, st1)"
    by (cases "RunDeadlineSweep today st") auto
  obtain f2 st2 where s2: "run_sweeps days st1 = (f2, st2)"
    by (cases "run_sweeps days st1") auto
  obtain ds2 ls2 ns2 g where
    r: "sweep_deadlines today (deadlines st) (lien_statuses st) (notifications st) = (ds2, ls2, ns2, g)"
    by (cases "sweep_deadlines today (deadlines st) (lien_statuses st) (notifications st)") auto
  with s1 have "notifications st1 = ns2" by (auto simp add: RunDeadlineSweep_def)
  with sweep_deadlines_notifications [OF Cons.prems(1) r]
  have "distinct (map triple (notifications st1))" by simp
  from Cons.IH [OF this s2] Cons.prems(2) s1 s2 show ?case by simp
qed

text \<open>
  Claim C4. From a state in which the deadline instances have distinct ids and no two
  notifications share their lien, threshold and type, every sequence of sweeps, on any
  days and as often a day as one likes, leaves at most one notification for each lien,
  threshold and type, and fires each threshold at most once for each deadline instance: a
  firing is made only for a threshold that is not in the fired thresholds of the instance,
  and it is in them afterwards.
\<close>

theorem sweeps_fire_each_threshold_once:
  assumes "distinct (map di_id (deadlines st))" and "distinct (map triple (notifications st))"
  shows "distinct (map triple (notifications (snd (run_sweeps days st))))
       \<and> distinct (fst (run_sweeps days st))
       \<and> set (fst (run_sweeps days st)) \<inter> ledger (deadlines st) = {}
       \<and> ledger (deadlines (snd (run_sweeps days st)))
           = ledger (deadlines st) \<union> set (fst (run_sweeps days st))"
proof -
  obtain fired st' where r: "run_sweeps days st = (fired, st')"
    by (cases "run_sweeps days st") auto
  from run_sweeps_ledger [OF assms(1) r] run_sweeps_notifications [OF assms(2) r] r
  show ?thesis by simp
qed

theorem sweeps_fire_each_threshold_once_witness:
  "distinct (map di_id (deadlines example_scheduler))
   \<and> distinct (map triple (notifications example_scheduler))
   \<and> fst (run_sweeps [20700, 20700] example_scheduler)
     = [(''deadline-lien-001'', 90), (''deadline-lien-001'', 60), (''deadline-lien-001'', 30)]
   \<and> map triple (notifications (snd (run_sweeps [20700, 20700] example_scheduler)))
     = [(''lien-001'', 90, ''redemption''), (''lien-001'', 60, ''redemption''),
        (''lien-001'', 30, ''redemption'')]
   \<and> distinct (map triple (notifications (snd (run_sweeps [20700, 20700] example_scheduler))))
   \<and> distinct (fst (run_sweeps [20700, 20700] example_scheduler))"
proof -
  have h1: "distinct (map di_id (deadlines example_scheduler))"
    by (simp add: example_scheduler_def)
  have h2: "distinct (map triple (notifications example_scheduler))"
    by (simp add: example_scheduler_def)
  have f: "fst (run_sweeps [20700, 20700] example_scheduler)
     = [(''deadline-lien-001'', 90), (''deadline-lien-001'', 60), (''deadline-lien-001'', 30)]"
    by code_simp
  have n: "map triple (notifications (snd (run_sweeps [20700, 20700] example_scheduler)))
     = [(''lien-001'', 90, ''redemption''), (''lien-001'', 60, ''redemption''),
        (''lien-001'', 30, ''redemption'')]"
    by code_simp
  from sweeps_fire_each_threshold_once [OF h1 h2, of "[20700, 20700]"] h1 h2 f n
  show ?thesis by simp
qed

end
